theory Spec2Isabelle
  imports Main
begin

section \<open>Python values shared by the two runners\<close>

text \<open>
  The runners of \<^verbatim>\<open>agentic_crew.runners\<close> receive the crew configuration as nested
  Python dictionaries and read them with \<^verbatim>\<open>.get(key, default)\<close>.  A dictionary with
  arbitrary keys (the \<^verbatim>\<open>agents\<close>, \<^verbatim>\<open>tasks\<close> and \<^verbatim>\<open>inputs\<close> mappings) is an association
  list in insertion order; a dictionary read at fixed keys only (one agent, one task, the
  crew itself) is a record with one optional field per key, \<open>None\<close> standing for an absent
  key.  Field types follow the data model: free text is \<open>string\<close>, flags are \<open>bool\<close>.
  A \<open>char\<close> stands for one code point below 256.
\<close>

datatype error =
    ImportError
  | RuntimeError string
  | ValueError string
  | KeyError string
  | OSError
  | UnicodeDecodeError
  | ValidationError string

type_synonym ('k, 'v) dict = "('k \<times> 'v) list"

text \<open>\<^verbatim>\<open>d.get(k)\<close>: the value stored under \<open>k\<close>, or \<open>None\<close>.\<close>

fun dict_get :: "('k, 'v) dict \<Rightarrow> 'k \<Rightarrow> 'v option" where
  "dict_get [] k = None"
| "dict_get ((k', v) # d) k = (if k' = k then Some v else dict_get d k)"

text \<open>\<^verbatim>\<open>k in d\<close>.\<close>

fun dict_contains :: "('k, 'v) dict \<Rightarrow> 'k \<Rightarrow> bool" where
  "dict_contains [] k = False"
| "dict_contains ((k', v) # d) k = (k' = k \<or> dict_contains d k)"

text \<open>\<^verbatim>\<open>d[k] = v\<close>: an existing key keeps its position, a new key goes last.\<close>

fun dict_set :: "('k, 'v) dict \<Rightarrow> 'k \<Rightarrow> 'v \<Rightarrow> ('k, 'v) dict" where
  "dict_set [] k v = [(k, v)]"
| "dict_set ((k', v') # d) k v = (if k' = k then (k, v) # d else (k', v') # dict_set d k v)"

text \<open>\<^verbatim>\<open>cfg.get(key, default)\<close> on an optional field.\<close>

fun get_or :: "'a option \<Rightarrow> 'a \<Rightarrow> 'a" where
  "get_or None dflt = dflt"
| "get_or (Some v) dflt = v"

text \<open>Truth value of what \<^verbatim>\<open>cfg.get(key)\<close> returns for a text field: \<^verbatim>\<open>None\<close> and the
  empty string are false.\<close>

fun truthy :: "string option \<Rightarrow> bool" where
  "truthy None = False"
| "truthy (Some s) = (s \<noteq> [])"

text \<open>\<^verbatim>\<open>str(x)\<close> inside an f-string, for a text value that may be \<^verbatim>\<open>None\<close>.\<close>

fun format_opt :: "string option \<Rightarrow> string" where
  "format_opt None = ''None''"
| "format_opt (Some s) = s"

text \<open>\<^verbatim>\<open>sep.join(parts)\<close>.\<close>

fun join :: "string \<Rightarrow> string list \<Rightarrow> string" where
  "join sep [] = []"
| "join sep [p] = p"
| "join sep (p # q # ps) = p @ sep @ join sep (q # ps)"

text \<open>\<^verbatim>\<open>str.isspace\<close> on one code point below 256, and \<^verbatim>\<open>str.strip()\<close>.\<close>

definition py_isspace :: "char \<Rightarrow> bool" where
  "py_isspace c =
     (let n = of_char c :: nat
      in (9 \<le> n \<and> n \<le> 13) \<or> (28 \<le> n \<and> n \<le> 32) \<or> n = 133 \<or> n = 160)"

definition py_strip :: "string \<Rightarrow> string" where
  "py_strip s = rev (dropWhile py_isspace (rev (dropWhile py_isspace s)))"

section \<open>The configuration model\<close>

record agent_config =
  role :: "string option"
  goal :: "string option"
  backstory :: "string option"
  llm :: "string option"
  allow_delegation :: "bool option"

record task_config =
  description :: "string option"
  expected_output :: "string option"
  agent :: "string option"
  task_context :: "string list option"

record crew_config =
  crew_name :: "string option"
  crew_description :: "string option"
  agents :: "(string, agent_config) dict option"
  tasks :: "(string, task_config) dict option"
  knowledge_paths :: "string list option"
  process :: "string option"
  planning :: "bool option"
  memory :: "bool option"
  verbose :: "bool option"

section \<open>Backend objects and the world the runners act on\<close>

text \<open>
  The objects of the two SDKs are records of the keyword arguments their constructors
  receive.  The LLM handle returned by \<^verbatim>\<open>BaseRunner.get_llm\<close> has type \<open>'l\<close> and a tool
  object has type \<open>'t\<close>.
\<close>

record ('l, 't) crewai_agent =
  agent_role :: string
  agent_goal :: string
  agent_backstory :: string
  agent_llm :: 'l
  agent_tools :: "'t list"
  agent_allow_delegation :: bool
  agent_verbose :: bool

record ('l, 't) crewai_task =
  task_description :: string
  task_expected_output :: string
  task_agent :: "('l, 't) crewai_agent"

record knowledge_source =
  file_paths :: "string list"

datatype Process = sequential | hierarchical

record ('l, 't) crewai_crew =
  crew_agents :: "('l, 't) crewai_agent list"
  crew_tasks :: "('l, 't) crewai_task list"
  crew_process :: Process
  crew_planning :: bool
  crew_memory :: bool
  crew_knowledge_sources :: "knowledge_source list option"
  crew_verbose :: bool

record 't strands_agent =
  system_prompt :: string
  strands_tools :: "'t list"

datatype ('l, 't) native =
    NAgent "('l, 't) crewai_agent"
  | NTask "('l, 't) crewai_task"
  | NKnowledge knowledge_source
  | NCrew "('l, 't) crewai_crew"
  | NStrandsAgent "'t strands_agent"

text \<open>
  The caller's configuration object is mutable and reached by reference, so it is part of
  the state every operation takes and returns, together with the backend objects
  constructed so far, in construction order.
\<close>

record ('l, 't) world =
  config :: crew_config
  constructed :: "('l, 't) native list"

definition construct :: "('l, 't) native \<Rightarrow> ('l, 't) world \<Rightarrow> ('l, 't) world" where
  "construct obj w = w\<lparr>constructed := constructed w @ [obj]\<rparr>"

text \<open>
  The file system \<^verbatim>\<open>_load_knowledge\<close> reads: whether a path exists, the files
  \<^verbatim>\<open>rglob\<close> yields under a path for a pattern, and what \<^verbatim>\<open>read_text\<close> does on a file (it
  returns the content, or raises: an \<^verbatim>\<open>OSError\<close> when the file cannot be opened or read, a
  \<^verbatim>\<open>UnicodeDecodeError\<close> when its bytes are not text in the default encoding).
\<close>

record filesystem =
  path_exists :: "string \<Rightarrow> bool"
  rglob :: "string \<Rightarrow> string \<Rightarrow> string list"
  read_text :: "string \<Rightarrow> error + string"

text \<open>
  What the constructors of the CrewAI SDK do with their arguments is not part of this
  repository.  \<^verbatim>\<open>Crew(...)\<close> validates its arguments and may raise a validation error;
  \<^verbatim>\<open>TextFileKnowledgeSource(...)\<close> resolves its paths and may raise, a missing file giving
  an \<^verbatim>\<open>OSError\<close>.  Whether each call raises is a parameter: \<open>None\<close> when the object is
  constructed, the exception otherwise.
\<close>

record ('l, 't) sdk =
  Crew_raises :: "('l, 't) crewai_crew \<Rightarrow> error option"
  TextFileKnowledgeSource_raises :: "string list \<Rightarrow> error option"

section \<open>CrewAIRunner\<close>

datatype runner = CrewAIRunner | StrandsRunner

text \<open>\<^verbatim>\<open>__init__\<close>: the argument is the outcome of \<^verbatim>\<open>import crewai\<close>.\<close>

fun CrewAIRunner_init :: "error + unit \<Rightarrow> error + runner" where
  "CrewAIRunner_init (Inl e) =
     (if e = ImportError
      then Inl (RuntimeError ''CrewAI not installed. Install with: pip install crewai[tools]'')
      else Inl e)"
| "CrewAIRunner_init (Inr _) = Inr CrewAIRunner"

text \<open>\<^verbatim>\<open>build_agent\<close> and \<^verbatim>\<open>build_task\<close>: the object the constructor call evaluates to,
  and the method, which also records the construction.\<close>

definition agent_object ::
  "(string option \<Rightarrow> 'l) \<Rightarrow> agent_config \<Rightarrow> 't list option \<Rightarrow> ('l, 't) crewai_agent" where
  "agent_object get_llm agent_cfg tools_arg =
     \<lparr>agent_role = get_or (role agent_cfg) ''Agent'',
      agent_goal = get_or (goal agent_cfg) '''',
      agent_backstory = get_or (backstory agent_cfg) '''',
      agent_llm = get_llm (llm agent_cfg),
      agent_tools = get_or tools_arg [],
      agent_allow_delegation = get_or (allow_delegation agent_cfg) False,
      agent_verbose = True\<rparr>"

definition CrewAIRunner_build_agent ::
  "(string option \<Rightarrow> 'l) \<Rightarrow> agent_config \<Rightarrow> 't list option \<Rightarrow> ('l, 't) world
     \<Rightarrow> ('l, 't) crewai_agent \<times> ('l, 't) world" where
  "CrewAIRunner_build_agent get_llm agent_cfg tools_arg w =
     (let a = agent_object get_llm agent_cfg tools_arg in (a, construct (NAgent a) w))"

definition task_object :: "task_config \<Rightarrow> ('l, 't) crewai_agent \<Rightarrow> ('l, 't) crewai_task" where
  "task_object task_cfg ag =
     \<lparr>task_description = get_or (description task_cfg) '''',
      task_expected_output = get_or (expected_output task_cfg) '''',
      task_agent = ag\<rparr>"

definition CrewAIRunner_build_task ::
  "task_config \<Rightarrow> ('l, 't) crewai_agent \<Rightarrow> ('l, 't) world
     \<Rightarrow> ('l, 't) crewai_task \<times> ('l, 't) world" where
  "CrewAIRunner_build_task task_cfg ag w =
     (let t = task_object task_cfg ag in (t, construct (NTask t) w))"

text \<open>The loop over \<^verbatim>\<open>agents_config.items()\<close>, filling the dictionary \<^verbatim>\<open>agents\<close>.\<close>

fun build_agents_loop ::
  "(string option \<Rightarrow> 'l) \<Rightarrow> (string, agent_config) dict
     \<Rightarrow> (string, ('l, 't) crewai_agent) dict \<Rightarrow> ('l, 't) world
     \<Rightarrow> (string, ('l, 't) crewai_agent) dict \<times> ('l, 't) world" where
  "build_agents_loop get_llm [] ags w = (ags, w)"
| "build_agents_loop get_llm ((agent_name, agent_cfg) # rest) ags w =
     (case CrewAIRunner_build_agent get_llm agent_cfg None w of
        (a, w') \<Rightarrow> build_agents_loop get_llm rest (dict_set ags agent_name a) w')"

text \<open>The message of the \<^verbatim>\<open>ValueError\<close> raised for a task.\<close>

definition invalid_agent_msg :: "string \<Rightarrow> string option \<Rightarrow> string" where
  "invalid_agent_msg task_name agent_name =
     ''Task '' @ [CHR 0x27] @ task_name @ [CHR 0x27] @ '' has invalid agent: ''
       @ format_opt agent_name"

text \<open>\<^verbatim>\<open>not agent_name or agent_name not in agents\<close>.\<close>

definition invalid_agent :: "(string, 'a) dict \<Rightarrow> string option \<Rightarrow> bool" where
  "invalid_agent ags agent_name =
     (\<not> truthy agent_name \<or> (case agent_name of None \<Rightarrow> True | Some n \<Rightarrow> \<not> dict_contains ags n))"

text \<open>The loop over \<^verbatim>\<open>tasks_config.items()\<close>, appending to the list \<^verbatim>\<open>tasks\<close>.\<close>

fun build_tasks_loop ::
  "(string, task_config) dict \<Rightarrow> (string, ('l, 't) crewai_agent) dict
     \<Rightarrow> ('l, 't) crewai_task list \<Rightarrow> ('l, 't) world
     \<Rightarrow> (error + ('l, 't) crewai_task list) \<times> ('l, 't) world" where
  "build_tasks_loop [] ags ts w = (Inr ts, w)"
| "build_tasks_loop ((task_name, task_cfg) # rest) ags ts w =
     (let agent_name = agent task_cfg
      in if invalid_agent ags agent_name
         then (Inl (ValueError (invalid_agent_msg task_name agent_name)), w)
         else (case dict_get ags (format_opt agent_name) of
                 None \<Rightarrow> (Inl (KeyError (format_opt agent_name)), w)
               | Some ag \<Rightarrow>
                   (case CrewAIRunner_build_task task_cfg ag w of
                      (t, w') \<Rightarrow> build_tasks_loop rest ags (ts @ [t]) w')))"

text \<open>\<^verbatim>\<open>_load_knowledge\<close>: the loop over the files of one pattern, the loop over the four
  patterns, and the loop over the knowledge paths.  The call of \<^verbatim>\<open>read_text\<close> and the
  constructor call both stand inside the \<^verbatim>\<open>try\<close> block: an \<^verbatim>\<open>OSError\<close> of either is
  swallowed by the \<^verbatim>\<open>except\<close> clause and the file contributes no source; any other
  exception leaves the function.\<close>

definition TextFileKnowledgeSource ::
  "('l, 't) sdk \<Rightarrow> string list \<Rightarrow> ('l, 't) world
     \<Rightarrow> (error + knowledge_source) \<times> ('l, 't) world" where
  "TextFileKnowledgeSource backend paths w =
     (case TextFileKnowledgeSource_raises backend paths of
        Some e \<Rightarrow> (Inl e, w)
      | None \<Rightarrow> (let s = \<lparr>file_paths = paths\<rparr> in (Inr s, construct (NKnowledge s) w)))"

fun load_files ::
  "('l, 't) sdk \<Rightarrow> filesystem \<Rightarrow> string list \<Rightarrow> knowledge_source list \<Rightarrow> ('l, 't) world
     \<Rightarrow> (error + knowledge_source list) \<times> ('l, 't) world" where
  "load_files backend fs [] sources w = (Inr sources, w)"
| "load_files backend fs (file_path # rest) sources w =
     (case read_text fs file_path of
        Inl e \<Rightarrow> (if e = OSError then load_files backend fs rest sources w else (Inl e, w))
      | Inr content \<Rightarrow>
          (if py_strip content \<noteq> []
           then (case TextFileKnowledgeSource backend [file_path] w of
                   (Inl e, w') \<Rightarrow>
                     (if e = OSError then load_files backend fs rest sources w' else (Inl e, w'))
                 | (Inr s, w') \<Rightarrow> load_files backend fs rest (sources @ [s]) w')
           else load_files backend fs rest sources w))"

fun load_patterns ::
  "('l, 't) sdk \<Rightarrow> filesystem \<Rightarrow> string \<Rightarrow> string list \<Rightarrow> knowledge_source list
     \<Rightarrow> ('l, 't) world \<Rightarrow> (error + knowledge_source list) \<times> ('l, 't) world" where
  "load_patterns backend fs knowledge_path [] sources w = (Inr sources, w)"
| "load_patterns backend fs knowledge_path (ext # exts) sources w =
     (case load_files backend fs (rglob fs knowledge_path ext) sources w of
        (Inl e, w') \<Rightarrow> (Inl e, w')
      | (Inr sources', w') \<Rightarrow> load_patterns backend fs knowledge_path exts sources' w')"

fun load_paths ::
  "('l, 't) sdk \<Rightarrow> filesystem \<Rightarrow> string list \<Rightarrow> knowledge_source list \<Rightarrow> ('l, 't) world
     \<Rightarrow> (error + knowledge_source list) \<times> ('l, 't) world" where
  "load_paths backend fs [] sources w = (Inr sources, w)"
| "load_paths backend fs (knowledge_path # rest) sources w =
     (if \<not> path_exists fs knowledge_path then load_paths backend fs rest sources w
      else (case load_patterns backend fs knowledge_path
                   [''*.md'', ''*.txt'', ''*.py'', ''*.ts''] sources w of
              (Inl e, w') \<Rightarrow> (Inl e, w')
            | (Inr sources', w') \<Rightarrow> load_paths backend fs rest sources' w'))"

definition CrewAIRunner_load_knowledge ::
  "('l, 't) sdk \<Rightarrow> filesystem \<Rightarrow> string list \<Rightarrow> ('l, 't) world
     \<Rightarrow> (error + knowledge_source list) \<times> ('l, 't) world" where
  "CrewAIRunner_load_knowledge backend fs paths w = load_paths backend fs paths [] w"

definition select_process :: "string option \<Rightarrow> Process" where
  "select_process p =
     (let process_type = get_or p ''sequential''
      in if process_type = ''hierarchical'' then hierarchical else sequential)"

text \<open>The constructor call \<^verbatim>\<open>Crew(...)\<close>: the SDK validates the arguments and raises, or
  the crew is constructed.\<close>

definition Crew ::
  "('l, 't) sdk \<Rightarrow> ('l, 't) crewai_crew \<Rightarrow> ('l, 't) world
     \<Rightarrow> (error + ('l, 't) crewai_crew) \<times> ('l, 't) world" where
  "Crew backend c w =
     (case Crew_raises backend c of
        Some e \<Rightarrow> (Inl e, w)
      | None \<Rightarrow> (Inr c, construct (NCrew c) w))"

text \<open>\<^verbatim>\<open>build_crew\<close> up to the constructor call: the two loops, the knowledge scan, the
  process selection and the keyword arguments of \<^verbatim>\<open>Crew(...)\<close>.\<close>

definition build_crew_arguments ::
  "(string option \<Rightarrow> 'l) \<Rightarrow> ('l, 't) sdk \<Rightarrow> filesystem \<Rightarrow> ('l, 't) world
     \<Rightarrow> (error + ('l, 't) crewai_crew) \<times> ('l, 't) world" where
  "build_crew_arguments get_llm backend fs w =
     (case build_agents_loop get_llm (get_or (agents (config w)) []) [] w of
        (ags, w1) \<Rightarrow>
          (case build_tasks_loop (get_or (tasks (config w1)) []) ags [] w1 of
             (Inl e, w2) \<Rightarrow> (Inl e, w2)
           | (Inr ts, w2) \<Rightarrow>
               (case CrewAIRunner_load_knowledge backend fs
                       (get_or (knowledge_paths (config w2)) []) w2 of
                  (Inl e, w3) \<Rightarrow> (Inl e, w3)
                | (Inr knowledge_sources, w3) \<Rightarrow>
                    (Inr \<lparr>crew_agents = map snd ags,
                          crew_tasks = ts,
                          crew_process = select_process (process (config w3)),
                          crew_planning = get_or (planning (config w3)) True,
                          crew_memory = get_or (memory (config w3)) True,
                          crew_knowledge_sources =
                            (if knowledge_sources \<noteq> [] then Some knowledge_sources else None),
                          crew_verbose = get_or (verbose (config w3)) True\<rparr>, w3))))"

definition CrewAIRunner_build_crew ::
  "(string option \<Rightarrow> 'l) \<Rightarrow> ('l, 't) sdk \<Rightarrow> filesystem \<Rightarrow> ('l, 't) world
     \<Rightarrow> (error + ('l, 't) crewai_crew) \<times> ('l, 't) world" where
  "CrewAIRunner_build_crew get_llm backend fs w =
     (case build_crew_arguments get_llm backend fs w of
        (Inl e, w3) \<Rightarrow> (Inl e, w3)
      | (Inr c, w3) \<Rightarrow> Crew backend c w3)"

text \<open>\<^verbatim>\<open>run\<close>: \<open>kickoff\<close> is the backend's own execution of a crew on the inputs; its
  result may carry a \<^verbatim>\<open>raw\<close> attribute and always has a string form.\<close>

record crew_output =
  raw :: "string option"
  str_form :: string

definition CrewAIRunner_run ::
  "(('l, 't) crewai_crew \<Rightarrow> (string, string) dict \<Rightarrow> error + crew_output)
     \<Rightarrow> ('l, 't) crewai_crew \<Rightarrow> (string, string) dict \<Rightarrow> ('l, 't) world
     \<Rightarrow> (error + string) \<times> ('l, 't) world" where
  "CrewAIRunner_run kickoff crew inputs w =
     (case kickoff crew inputs of
        Inl e \<Rightarrow> (Inl e, w)
      | Inr result \<Rightarrow>
          (Inr (case raw result of Some r \<Rightarrow> r | None \<Rightarrow> str_form result), w))"

section \<open>StrandsRunner\<close>

text \<open>\<^verbatim>\<open>__init__\<close>: the argument is the outcome of \<^verbatim>\<open>import strands\<close>.\<close>

fun StrandsRunner_init :: "error + unit \<Rightarrow> error + runner" where
  "StrandsRunner_init (Inl e) =
     (if e = ImportError
      then Inl (RuntimeError ''Strands not installed. Install with: pip install strands-agents'')
      else Inl e)"
| "StrandsRunner_init (Inr _) = Inr StrandsRunner"

text \<open>
  \<^verbatim>\<open>str(inputs)\<close> for a dictionary from strings to strings is
  \<^verbatim>\<open>{k1: v1, k2: v2}\<close> with every key and value in \<^verbatim>\<open>repr\<close> form.  \<^verbatim>\<open>repr\<close> of a string
  picks the double quote when the string has a single quote and no double quote, and the
  single quote otherwise; it escapes the backslash, the chosen quote, tab, newline and
  carriage return, and writes every other code point that is not printable as
  \<^verbatim>\<open>\xhh\<close>.
\<close>

definition hex_digit :: "nat \<Rightarrow> char" where
  "hex_digit n = (if n < 10 then char_of (48 + n) else char_of (87 + n))"

definition py_isprintable :: "char \<Rightarrow> bool" where
  "py_isprintable c =
     (let n = of_char c :: nat in (32 \<le> n \<and> n < 127) \<or> (161 \<le> n \<and> n \<noteq> 173))"

definition repr_char :: "char \<Rightarrow> char \<Rightarrow> string" where
  "repr_char quote c =
     (if c = quote \<or> c = CHR 0x5C then [CHR 0x5C, c]
      else if c = CHR 0x09 then [CHR 0x5C, CHR ''t'']
      else if c = CHR 0x0A then [CHR 0x5C, CHR ''n'']
      else if c = CHR 0x0D then [CHR 0x5C, CHR ''r'']
      else if py_isprintable c then [c]
      else [CHR 0x5C, CHR ''x'', hex_digit (of_char c div 16), hex_digit (of_char c mod 16)])"

definition py_repr :: "string \<Rightarrow> string" where
  "py_repr s =
     (let quote = (if CHR 0x27 \<in> set s \<and> CHR 0x22 \<notin> set s then CHR 0x22 else CHR 0x27)
      in [quote] @ concat (map (repr_char quote) s) @ [quote])"

definition py_str_dict :: "(string, string) dict \<Rightarrow> string" where
  "py_str_dict d = ''{'' @ join '', '' (map (\<lambda>(k, v). py_repr k @ '': '' @ py_repr v) d) @ ''}''"

text \<open>\<^verbatim>\<open>d.get(k, default)\<close> on a dictionary; Python evaluates \<open>default\<close> first.\<close>

definition dict_get_or :: "('k, 'v) dict \<Rightarrow> 'k \<Rightarrow> 'v \<Rightarrow> 'v" where
  "dict_get_or d k dflt = get_or (dict_get d k) dflt"

text \<open>The local \<^verbatim>\<open>prompt\<close> of \<^verbatim>\<open>run\<close>.\<close>

definition StrandsRunner_run_prompt :: "(string, string) dict \<Rightarrow> string" where
  "StrandsRunner_run_prompt inputs =
     dict_get_or inputs ''input'' (dict_get_or inputs ''task'' (py_str_dict inputs))"

text \<open>\<^verbatim>\<open>run\<close>: \<open>call\<close> is the backend's execution of the agent on a prompt and \<open>to_str\<close> the
  string form of its result.\<close>

definition StrandsRunner_run ::
  "('t strands_agent \<Rightarrow> string \<Rightarrow> error + 'r) \<Rightarrow> ('r \<Rightarrow> string)
     \<Rightarrow> 't strands_agent \<Rightarrow> (string, string) dict \<Rightarrow> ('l, 't) world
     \<Rightarrow> (error + string) \<times> ('l, 't) world" where
  "StrandsRunner_run call to_str crew inputs w =
     (let prompt = StrandsRunner_run_prompt inputs
      in case call crew prompt of
           Inl e \<Rightarrow> (Inl e, w)
         | Inr result \<Rightarrow> (Inr (to_str result), w))"

text \<open>\<^verbatim>\<open>_build_system_prompt\<close>: the two loops appending to \<^verbatim>\<open>parts\<close>, then the function.\<close>

fun capabilities_loop :: "(string, agent_config) dict \<Rightarrow> string list \<Rightarrow> string list" where
  "capabilities_loop [] parts = parts"
| "capabilities_loop ((agent_name, agent_cfg) # rest) parts =
     (let role_text = get_or (role agent_cfg) agent_name;
          goal_text = get_or (goal agent_cfg) '''';
          parts1 = parts @ [''\<newline>## '' @ role_text];
          parts2 = (if goal_text \<noteq> [] then parts1 @ [''Goal: '' @ goal_text] else parts1)
      in capabilities_loop rest parts2)"

text \<open>The f-string of one task line; \<^verbatim>\<open>desc[:200]\<close> keeps the first 200 characters.\<close>

definition task_summary :: "string \<Rightarrow> string \<Rightarrow> string" where
  "task_summary task_name desc = ''\<newline>- '' @ task_name @ '': '' @ take 200 desc @ ''...''"

fun tasks_loop :: "(string, task_config) dict \<Rightarrow> string list \<Rightarrow> string list" where
  "tasks_loop [] parts = parts"
| "tasks_loop ((task_name, task_cfg) # rest) parts =
     (let desc = get_or (description task_cfg) ''''
      in if desc \<noteq> []
         then tasks_loop rest (parts @ [task_summary task_name desc])
         else tasks_loop rest parts)"

definition system_prompt_parts :: "crew_config \<Rightarrow> string list" where
  "system_prompt_parts crew_cfg =
     (let parts0 = [];
          parts1 = (if truthy (crew_description crew_cfg)
                    then parts0 @ [''# Your Purpose\<newline>'' @ format_opt (crew_description crew_cfg)]
                    else parts0);
          agents_map = get_or (agents crew_cfg) [];
          parts2 = (if agents_map \<noteq> []
                    then capabilities_loop agents_map (parts1 @ [''\<newline># Your Capabilities''])
                    else parts1);
          tasks_map = get_or (tasks crew_cfg) [];
          parts3 = (if tasks_map \<noteq> []
                    then tasks_loop tasks_map (parts2 @ [''\<newline># Tasks You Can Perform''])
                    else parts2)
      in parts3)"

definition StrandsRunner_build_system_prompt :: "crew_config \<Rightarrow> string" where
  "StrandsRunner_build_system_prompt crew_cfg = join ''\<newline>'' (system_prompt_parts crew_cfg)"

definition StrandsRunner_collect_tools :: "crew_config \<Rightarrow> 't list" where
  "StrandsRunner_collect_tools crew_cfg = []"

definition StrandsRunner_build_crew ::
  "('l, 't) world \<Rightarrow> 't strands_agent \<times> ('l, 't) world" where
  "StrandsRunner_build_crew w =
     (let prompt = StrandsRunner_build_system_prompt (config w);
          tools = StrandsRunner_collect_tools (config w);
          a = \<lparr>system_prompt = prompt, strands_tools = tools\<rparr>
      in (a, construct (NStrandsAgent a) w))"

section \<open>Notions used in the statements\<close>

text \<open>The native task of a task configuration, bound to the agent a dictionary of native
  agents holds under the task's agent name; \<open>None\<close> when there is no such agent.\<close>

definition task_for :: "(string, ('l, 't) crewai_agent) dict \<Rightarrow> task_config \<Rightarrow> ('l, 't) crewai_task option" where
  "task_for ags task_cfg =
     (case agent task_cfg of
        None \<Rightarrow> None
      | Some a \<Rightarrow> map_option (task_object task_cfg) (dict_get ags a))"

text \<open>Scanning a file is quiet when nothing it raises leaves \<^verbatim>\<open>_load_knowledge\<close>:
  \<^verbatim>\<open>read_text\<close> returns or raises \<^verbatim>\<open>OSError\<close>, and for content that is not blank the
  constructor returns or raises \<^verbatim>\<open>OSError\<close>.  A file qualifies as a knowledge source when
  its content has a character that is not white space and the constructor accepts it.
  \<open>scanned_files\<close> lists the files \<^verbatim>\<open>_load_knowledge\<close> visits, in the order of its three
  loops.\<close>

definition quiet :: "('l, 't) sdk \<Rightarrow> filesystem \<Rightarrow> string \<Rightarrow> bool" where
  "quiet backend fs f =
     (case read_text fs f of
        Inl e \<Rightarrow> e = OSError
      | Inr content \<Rightarrow>
          py_strip content = []
          \<or> (case TextFileKnowledgeSource_raises backend [f] of
                None \<Rightarrow> True
              | Some e \<Rightarrow> e = OSError))"

definition qualifying :: "('l, 't) sdk \<Rightarrow> filesystem \<Rightarrow> string \<Rightarrow> bool" where
  "qualifying backend fs f =
     (case read_text fs f of
        Inl e \<Rightarrow> False
      | Inr content \<Rightarrow>
          py_strip content \<noteq> [] \<and> TextFileKnowledgeSource_raises backend [f] = None)"

definition scanned_files :: "filesystem \<Rightarrow> string list \<Rightarrow> string list" where
  "scanned_files fs paths =
     concat (map (\<lambda>p. if path_exists fs p
                       then concat (map (rglob fs p) [''*.md'', ''*.txt'', ''*.py'', ''*.ts''])
                       else []) paths)"

section \<open>Example configurations\<close>

text \<open>The empty dictionary at each level, a file system with no path, and the inputs the
  closed statements below are evaluated at.\<close>

definition empty_agent_config :: agent_config where
  "empty_agent_config =
     \<lparr>role = None, goal = None, backstory = None, llm = None, allow_delegation = None\<rparr>"

definition empty_task_config :: task_config where
  "empty_task_config =
     \<lparr>description = None, expected_output = None, agent = None, task_context = None\<rparr>"

definition empty_crew_config :: crew_config where
  "empty_crew_config =
     \<lparr>crew_name = None, crew_description = None, agents = None, tasks = None,
      knowledge_paths = None, process = None, planning = None, memory = None, verbose = None\<rparr>"

definition accepting_sdk :: "(string option, unit) sdk" where
  "accepting_sdk =
     \<lparr>Crew_raises = (\<lambda>c. None), TextFileKnowledgeSource_raises = (\<lambda>paths. None)\<rparr>"

definition empty_filesystem :: filesystem where
  "empty_filesystem =
     \<lparr>path_exists = (\<lambda>p. False), rglob = (\<lambda>p ext. []), read_text = (\<lambda>f. Inl OSError)\<rparr>"

definition notes_filesystem :: filesystem where
  "notes_filesystem =
     \<lparr>path_exists = (\<lambda>p. p = ''kb''),
      rglob = (\<lambda>p ext. if p = ''kb'' \<and> ext = ''*.md'' then [''kb/notes.md'']
                        else if p = ''kb'' \<and> ext = ''*.txt'' then [''kb/blank.txt'', ''kb/locked.txt'']
                        else []),
      read_text = (\<lambda>f. if f = ''kb/notes.md'' then Inr ''# Notes''
                        else if f = ''kb/blank.txt'' then Inr ''  \<newline>''
                        else Inl OSError)\<rparr>"

definition partial_build_world :: "(string option, unit) world" where
  "partial_build_world =
     \<lparr>config = empty_crew_config
        \<lparr>agents := Some [(''researcher'', empty_agent_config)],
         tasks := Some [(''research_task'', empty_task_config\<lparr>agent := Some ''researcher''\<rparr>),
                        (''writing_task'', empty_task_config\<lparr>agent := Some ''writer''\<rparr>)]\<rparr>,
      constructed = []\<rparr>"

definition research_crew_world :: "(string option, unit) world" where
  "research_crew_world =
     \<lparr>config = empty_crew_config
        \<lparr>agents := Some [(''researcher'', empty_agent_config\<lparr>role := Some ''Researcher''\<rparr>),
                         (''writer'', empty_agent_config\<lparr>role := Some ''Writer''\<rparr>)],
         tasks := Some [(''research_task'', empty_task_config\<lparr>agent := Some ''researcher''\<rparr>),
                        (''writing_task'',
                         empty_task_config\<lparr>agent := Some ''writer'',
                                            task_context := Some [''research_task'']\<rparr>)],
         knowledge_paths := Some [''kb'', ''missing'']\<rparr>,
      constructed = []\<rparr>"

definition empty_name_world :: "(string option, unit) world" where
  "empty_name_world =
     \<lparr>config = empty_crew_config
        \<lparr>agents := Some [([], empty_agent_config)],
         tasks := Some [(''research_task'', empty_task_config\<lparr>agent := Some []\<rparr>)]\<rparr>,
      constructed = []\<rparr>"

definition missing_agent_world :: "(string option, unit) world" where
  "missing_agent_world =
     \<lparr>config = empty_crew_config
        \<lparr>agents := Some [([], empty_agent_config)],
         tasks := Some [(''first'', empty_task_config\<lparr>agent := Some []\<rparr>),
                        (''second'', empty_task_config)]\<rparr>,
      constructed = []\<rparr>"

definition binary_filesystem :: filesystem where
  "binary_filesystem =
     \<lparr>path_exists = (\<lambda>p. p = ''kb''),
      rglob = (\<lambda>p ext. if p = ''kb'' \<and> ext = ''*.md'' then [''kb/notes.md'']
                        else if p = ''kb'' \<and> ext = ''*.txt'' then [''kb/binary.txt'', ''kb/after.txt'']
                        else []),
      read_text = (\<lambda>f. if f = ''kb/binary.txt'' then Inl UnicodeDecodeError
                        else Inr ''some text'')\<rparr>"

definition empty_world :: "(string option, unit) world" where
  "empty_world = \<lparr>config = empty_crew_config, constructed = []\<rparr>"

definition unrecognized_process_world :: "(string option, unit) world" where
  "unrecognized_process_world =
     \<lparr>config = empty_crew_config
        \<lparr>agents := Some [(''researcher'', empty_agent_config)],
         tasks := Some [(''research_task'', empty_task_config\<lparr>agent := Some ''researcher''\<rparr>)],
         process := Some ''parallel''\<rparr>,
      constructed = []\<rparr>"

definition undescribed_task_config :: crew_config where
  "undescribed_task_config =
     empty_crew_config
       \<lparr>tasks := Some [(''research_task'', empty_task_config\<lparr>agent := Some ''researcher''\<rparr>)]\<rparr>"

definition boundary_config :: crew_config where
  "boundary_config =
     empty_crew_config
       \<lparr>crew_description := Some ''Research and write'',
        agents := Some [(''researcher'', empty_agent_config\<lparr>goal := Some ''Find facts''\<rparr>)],
        tasks := Some [(''exact'', empty_task_config\<lparr>description := Some (replicate 200 CHR ''x'')\<rparr>),
                       (''silent'', empty_task_config),
                       (''long'', empty_task_config\<lparr>description := Some (replicate 201 CHR ''y'')\<rparr>),
                       (''short'', empty_task_config\<lparr>description := Some ''Write''\<rparr>)]\<rparr>"

section \<open>Auxiliary facts\<close>

lemma config_construct: "config (construct obj w) = config w"
  by (simp add: construct_def)

lemma dict_contains_iff: "dict_contains d k \<longleftrightarrow> k \<in> fst ` set d"
  by (induction d) auto

lemma dict_contains_get: "dict_contains d k \<Longrightarrow> \<exists>v. dict_get d k = Some v"
  by (induction d) auto

lemma dict_contains_set: "dict_contains (dict_set d k v) k' \<longleftrightarrow> k' = k \<or> dict_contains d k'"
  by (induction d) (auto split: if_splits)

lemma build_agent_eq:
  "CrewAIRunner_build_agent g c t w = (agent_object g c t, construct (NAgent (agent_object g c t)) w)"
  by (simp add: CrewAIRunner_build_agent_def Let_def)

lemma build_task_eq:
  "CrewAIRunner_build_task c ag w = (task_object c ag, construct (NTask (task_object c ag)) w)"
  by (simp add: CrewAIRunner_build_task_def Let_def)

lemma dict_set_new: "\<not> dict_contains d k \<Longrightarrow> dict_set d k v = d @ [(k, v)]"
  by (induction d) auto

lemma dict_get_map:
  "dict_get (map (\<lambda>(n, c). (n, f c)) d) k = map_option f (dict_get d k)"
  by (induction d) auto

lemma build_agents_loop_world:
  "snd (build_agents_loop g cfgs ags w) =
     w\<lparr>constructed := constructed w @ map (\<lambda>(n, c). NAgent (agent_object g c None)) cfgs\<rparr>"
proof (induction cfgs arbitrary: ags w)
  case Nil
  show ?case by simp
next
  case (Cons x cfgs)
  obtain n c where x: "x = (n, c)" by (cases x)
  show ?case
    by (simp add: x build_agent_eq Cons.IH construct_def)
qed

lemma build_agents_loop_keys:
  "dict_contains (fst (build_agents_loop g cfgs ags w)) k \<longleftrightarrow>
     dict_contains ags k \<or> dict_contains cfgs k"
proof (induction cfgs arbitrary: ags w)
  case Nil
  show ?case by simp
next
  case (Cons x cfgs)
  obtain n c where x: "x = (n, c)" by (cases x)
  show ?case
    by (auto simp add: x build_agent_eq Cons.IH dict_contains_set)
qed

lemma build_agents_loop_dict:
  "distinct (map fst ags @ map fst cfgs) \<Longrightarrow>
   fst (build_agents_loop g cfgs ags w) = ags @ map (\<lambda>(n, c). (n, agent_object g c None)) cfgs"
proof (induction cfgs arbitrary: ags w)
  case Nil
  show ?case by simp
next
  case (Cons x cfgs)
  obtain n c where x: "x = (n, c)" by (cases x)
  from Cons.prems have new: "\<not> dict_contains ags n"
    by (auto simp add: x dict_contains_iff)
  from Cons.prems have d: "distinct (map fst (ags @ [(n, agent_object g c None)]) @ map fst cfgs)"
    by (auto simp add: x)
  show ?case
    using Cons.IH [OF d] by (simp add: x build_agent_eq dict_set_new [OF new])
qed

lemma invalid_agent_keys:
  "(\<And>k. dict_contains d k \<longleftrightarrow> dict_contains d' k) \<Longrightarrow> invalid_agent d x = invalid_agent d' x"
  by (simp add: invalid_agent_def split: option.splits)

lemma valid_agent_lookup:
  "\<not> invalid_agent ags x \<Longrightarrow> \<exists>a ag. x = Some a \<and> a \<noteq> [] \<and> dict_get ags a = Some ag"
  by (cases x) (auto simp add: invalid_agent_def dest: dict_contains_get)

lemma build_tasks_loop_valid:
  "list_all (\<lambda>(n, t). \<not> invalid_agent ags (agent t)) tcs \<Longrightarrow>
   \<exists>new. build_tasks_loop tcs ags ts w =
           (Inr (ts @ new), w\<lparr>constructed := constructed w @ map NTask new\<rparr>)
         \<and> map Some new = map (\<lambda>(n, t). task_for ags t) tcs"
proof (induction tcs arbitrary: ts w)
  case Nil
  show ?case by simp
next
  case (Cons x tcs)
  obtain n t where x: "x = (n, t)" by (cases x)
  from Cons.prems have v: "\<not> invalid_agent ags (agent t)"
    and rest: "list_all (\<lambda>(n, t). \<not> invalid_agent ags (agent t)) tcs"
    by (simp_all add: x)
  from valid_agent_lookup [OF v] obtain a ag
    where a: "agent t = Some a" and ag: "dict_get ags a = Some ag" by blast
  let ?t = "task_object t ag"
  from Cons.IH [OF rest, of "ts @ [?t]" "construct (NTask ?t) w"] obtain new
    where run: "build_tasks_loop tcs ags (ts @ [?t]) (construct (NTask ?t) w) =
                  (Inr ((ts @ [?t]) @ new),
                   (construct (NTask ?t) w)\<lparr>constructed :=
                      constructed (construct (NTask ?t) w) @ map NTask new\<rparr>)"
      and new: "map Some new = map (\<lambda>(n, t). task_for ags t) tcs"
    by blast
  have "build_tasks_loop (x # tcs) ags ts w =
          (Inr (ts @ ?t # new), w\<lparr>constructed := constructed w @ map NTask (?t # new)\<rparr>)"
    using v a ag run by (simp add: x build_task_eq construct_def)
  moreover have "map Some (?t # new) = map (\<lambda>(n, t). task_for ags t) (x # tcs)"
    using new a ag by (simp add: x task_for_def)
  ultimately show ?case by blast
qed

lemma build_tasks_loop_append:
  "build_tasks_loop (xs @ ys) ags ts w =
     (case build_tasks_loop xs ags ts w of
        (Inl e, w') \<Rightarrow> (Inl e, w')
      | (Inr ts', w') \<Rightarrow> build_tasks_loop ys ags ts' w')"
proof (induction xs arbitrary: ts w)
  case Nil
  show ?case by simp
next
  case (Cons x xs)
  obtain n t where x: "x = (n, t)" by (cases x)
  show ?case
    by (simp add: x Cons.IH build_task_eq Let_def split: option.splits)
qed

lemma build_tasks_loop_first_invalid:
  assumes "list_all (\<lambda>(n, t). \<not> invalid_agent ags (agent t)) pre"
      and "invalid_agent ags (agent t)"
  shows "\<exists>new. build_tasks_loop (pre @ (n, t) # post) ags ts w =
           (Inl (ValueError (invalid_agent_msg n (agent t))),
            w\<lparr>constructed := constructed w @ map NTask new\<rparr>)
         \<and> map Some new = map (\<lambda>(n, t). task_for ags t) pre"
proof -
  from build_tasks_loop_valid [OF assms(1), of ts w] obtain new
    where run: "build_tasks_loop pre ags ts w =
                  (Inr (ts @ new), w\<lparr>constructed := constructed w @ map NTask new\<rparr>)"
      and new: "map Some new = map (\<lambda>(n, t). task_for ags t) pre"
    by blast
  have "build_tasks_loop (pre @ (n, t) # post) ags ts w =
          (Inl (ValueError (invalid_agent_msg n (agent t))),
           w\<lparr>constructed := constructed w @ map NTask new\<rparr>)"
    using assms(2) by (simp add: build_tasks_loop_append run)
  with new show ?thesis by blast
qed

lemma knowledge_source_eq:
  "TextFileKnowledgeSource backend ps w =
     (case TextFileKnowledgeSource_raises backend ps of
        Some e \<Rightarrow> (Inl e, w)
      | None \<Rightarrow> (Inr \<lparr>file_paths = ps\<rparr>, construct (NKnowledge \<lparr>file_paths = ps\<rparr>) w))"
  by (simp add: TextFileKnowledgeSource_def Let_def split: option.splits)

lemma load_files_append:
  "load_files backend fs (xs @ ys) sources w =
     (case load_files backend fs xs sources w of
        (Inl e, w') \<Rightarrow> (Inl e, w')
      | (Inr sources', w') \<Rightarrow> load_files backend fs ys sources' w')"
  by (induction xs arbitrary: sources w)
     (simp_all add: knowledge_source_eq split: sum.splits option.splits)

lemma load_patterns_files:
  "load_patterns backend fs p exts sources w =
     load_files backend fs (concat (map (rglob fs p) exts)) sources w"
proof (induction exts arbitrary: sources w)
  case Nil
  show ?case by simp
next
  case (Cons ext exts)
  show ?case
    by (simp add: load_files_append Cons.IH split: prod.splits sum.splits)
qed

lemma load_paths_files:
  "load_paths backend fs paths sources w =
     load_files backend fs (scanned_files fs paths) sources w"
proof (induction paths arbitrary: sources w)
  case Nil
  show ?case by (simp add: scanned_files_def)
next
  case (Cons p paths)
  have step: "scanned_files fs (p # paths) =
      (if path_exists fs p then concat (map (rglob fs p) [''*.md'', ''*.txt'', ''*.py'', ''*.ts'']) else [])
        @ scanned_files fs paths"
    by (simp add: scanned_files_def)
  show ?case
  proof (cases "path_exists fs p")
    case True
    then show ?thesis
      unfolding step
      by (simp only: load_paths.simps load_patterns_files load_files_append Cons.IH if_True if_False not_True_eq_False)
  next
    case False
    then show ?thesis
      unfolding step by (simp add: Cons.IH)
  qed
qed

lemma load_files_quiet:
  "list_all (quiet backend fs) files \<Longrightarrow>
   load_files backend fs files sources w =
     (Inr (sources @ map (\<lambda>f. \<lparr>file_paths = [f]\<rparr>) (filter (qualifying backend fs) files)),
      w\<lparr>constructed := constructed w
           @ map (\<lambda>f. NKnowledge \<lparr>file_paths = [f]\<rparr>) (filter (qualifying backend fs) files)\<rparr>)"
proof (induction files arbitrary: sources w)
  case Nil
  show ?case by simp
next
  case (Cons f files)
  from Cons.prems have r: "quiet backend fs f" and rest: "list_all (quiet backend fs) files"
    by simp_all
  show ?case
  proof (cases "read_text fs f")
    case (Inl e)
    with r have "e = OSError" by (simp add: quiet_def)
    with Inl show ?thesis by (simp add: Cons.IH [OF rest] qualifying_def)
  next
    case (Inr content)
    show ?thesis
    proof (cases "py_strip content = []")
      case True
      with Inr show ?thesis by (simp add: Cons.IH [OF rest] qualifying_def)
    next
      case False
      show ?thesis
      proof (cases "TextFileKnowledgeSource_raises backend [f]")
        case None
        with Inr False show ?thesis
          by (simp add: Cons.IH [OF rest] qualifying_def knowledge_source_eq construct_def)
      next
        case (Some e)
        with r Inr False have "e = OSError" by (simp add: quiet_def)
        with Inr False Some show ?thesis
          by (simp add: Cons.IH [OF rest] qualifying_def knowledge_source_eq)
      qed
    qed
  qed
qed

lemma load_files_config: "config (snd (load_files backend fs files sources w)) = config w"
proof (induction files arbitrary: sources w)
  case Nil
  show ?case by simp
next
  case (Cons f files)
  show ?case
    by (cases "read_text fs f")
       (simp_all add: Cons.IH knowledge_source_eq config_construct split: option.splits)
qed

lemma build_tasks_loop_config: "config (snd (build_tasks_loop tcs ags ts w)) = config w"
proof (induction tcs arbitrary: ts w)
  case Nil
  show ?case by simp
next
  case (Cons x tcs)
  obtain n t where x: "x = (n, t)" by (cases x)
  show ?case
    by (simp add: x Cons.IH build_task_eq config_construct Let_def split: option.splits)
qed

lemma build_agents_loop_config: "config (snd (build_agents_loop g cfgs ags w)) = config w"
  by (simp add: build_agents_loop_world)

lemma load_knowledge_quiet:
  "list_all (quiet backend fs) (scanned_files fs paths) \<Longrightarrow>
   CrewAIRunner_load_knowledge backend fs paths w =
     (Inr (map (\<lambda>f. \<lparr>file_paths = [f]\<rparr>)
             (filter (qualifying backend fs) (scanned_files fs paths))),
      w\<lparr>constructed := constructed w
           @ map (\<lambda>f. NKnowledge \<lparr>file_paths = [f]\<rparr>)
               (filter (qualifying backend fs) (scanned_files fs paths))\<rparr>)"
  using load_files_quiet [of backend fs "scanned_files fs paths" "[]" w]
  by (simp add: CrewAIRunner_load_knowledge_def load_paths_files)

lemma load_knowledge_config:
  "config (snd (CrewAIRunner_load_knowledge backend fs paths w)) = config w"
  by (simp add: CrewAIRunner_load_knowledge_def load_paths_files load_files_config)

lemma Crew_fst:
  "fst (Crew backend c w) = (case Crew_raises backend c of Some e \<Rightarrow> Inl e | None \<Rightarrow> Inr c)"
  by (simp add: Crew_def split: option.splits)

lemma Crew_config: "config (snd (Crew backend c w)) = config w"
  by (simp add: Crew_def config_construct split: option.splits)

lemma build_crew_fst:
  "fst (CrewAIRunner_build_crew g backend fs w) =
     (case fst (build_crew_arguments g backend fs w) of
        Inl e \<Rightarrow> Inl e
      | Inr c \<Rightarrow> (case Crew_raises backend c of Some e \<Rightarrow> Inl e | None \<Rightarrow> Inr c))"
  by (cases "build_crew_arguments g backend fs w")
     (simp add: CrewAIRunner_build_crew_def Crew_fst split: sum.splits)

lemma build_crew_arguments_config:
  "config (snd (build_crew_arguments g backend fs w)) = config w"
proof -
  obtain ags w1 where l1: "build_agents_loop g (get_or (agents (config w)) []) [] w = (ags, w1)"
    by (cases "build_agents_loop g (get_or (agents (config w)) []) [] w")
  have c1: "config w1 = config w"
    using build_agents_loop_config [of g "get_or (agents (config w)) []" "[]" w] by (simp add: l1)
  obtain r2 w2 where l2: "build_tasks_loop (get_or (tasks (config w)) []) ags [] w1 = (r2, w2)"
    by (cases "build_tasks_loop (get_or (tasks (config w)) []) ags [] w1")
  have c2: "config w2 = config w"
    using build_tasks_loop_config [of "get_or (tasks (config w)) []" ags "[]" w1]
    by (simp add: l2 c1)
  obtain r3 w3 where
    l3: "CrewAIRunner_load_knowledge backend fs (get_or (knowledge_paths (config w)) []) w2 = (r3, w3)"
    by (cases "CrewAIRunner_load_knowledge backend fs (get_or (knowledge_paths (config w)) []) w2")
  have c3: "config w3 = config w"
    using load_knowledge_config [of backend fs "get_or (knowledge_paths (config w)) []" w2]
    by (simp add: l3 c2)
  show ?thesis
    by (cases r2; cases r3) (simp_all add: build_crew_arguments_def l1 c1 l2 c2 l3 c3)
qed

lemma build_crew_config: "config (snd (CrewAIRunner_build_crew g backend fs w)) = config w"
proof -
  obtain r w3 where args: "build_crew_arguments g backend fs w = (r, w3)"
    by (cases "build_crew_arguments g backend fs w")
  have c3: "config w3 = config w"
    using build_crew_arguments_config [of g backend fs w] by (simp add: args)
  show ?thesis
    by (cases r) (simp_all add: CrewAIRunner_build_crew_def args c3 Crew_config)
qed

lemma build_crew_first_invalid:
  assumes tasks: "get_or (tasks (config w)) [] = pre @ (n, t) # post"
      and pre: "list_all (\<lambda>(n, t). \<not> invalid_agent (get_or (agents (config w)) []) (agent t)) pre"
      and bad: "invalid_agent (get_or (agents (config w)) []) (agent t)"
  shows "\<exists>new. CrewAIRunner_build_crew g backend fs w =
           (Inl (ValueError (invalid_agent_msg n (agent t))),
            w\<lparr>constructed := constructed w
                 @ map (\<lambda>(n, c). NAgent (agent_object g c None)) (get_or (agents (config w)) [])
                 @ map NTask new\<rparr>)
         \<and> length new = length pre"
proof -
  let ?acfg = "get_or (agents (config w)) []"
  obtain ags w1 where loop: "build_agents_loop g ?acfg [] w = (ags, w1)"
    by (cases "build_agents_loop g ?acfg [] w")
  have w1: "w1 = w\<lparr>constructed := constructed w @ map (\<lambda>(n, c). NAgent (agent_object g c None)) ?acfg\<rparr>"
    using build_agents_loop_world [of g ?acfg "[]" w] by (simp add: loop)
  have keys: "\<And>k. dict_contains ags k \<longleftrightarrow> dict_contains ?acfg k"
    using build_agents_loop_keys [of g ?acfg "[]" w] by (simp add: loop)
  have inv: "\<And>x. invalid_agent ags x = invalid_agent ?acfg x"
    by (rule invalid_agent_keys) (rule keys)
  from pre have pre': "list_all (\<lambda>(n, t). \<not> invalid_agent ags (agent t)) pre"
    by (simp add: inv)
  from bad have bad': "invalid_agent ags (agent t)"
    by (simp add: inv)
  from build_tasks_loop_first_invalid [OF pre' bad', of n post "[]" w1] obtain new
    where run: "build_tasks_loop (pre @ (n, t) # post) ags [] w1 =
                  (Inl (ValueError (invalid_agent_msg n (agent t))),
                   w1\<lparr>constructed := constructed w1 @ map NTask new\<rparr>)"
      and new: "map Some new = map (\<lambda>(n, t). task_for ags t) pre"
    by blast
  have cfg1: "config w1 = config w" by (simp add: w1)
  have "CrewAIRunner_build_crew g backend fs w =
          (Inl (ValueError (invalid_agent_msg n (agent t))),
           w1\<lparr>constructed := constructed w1 @ map NTask new\<rparr>)"
    by (simp add: CrewAIRunner_build_crew_def build_crew_arguments_def loop cfg1 tasks run)
  moreover have "length new = length pre"
    using new by (metis length_map)
  ultimately show ?thesis
    by (auto simp add: w1)
qed

lemma task_for_fields:
  "map Some new = map (\<lambda>(n, t). task_for ags t) tcs \<Longrightarrow>
   map task_description new = map (\<lambda>(n, t). get_or (description t) []) tcs
   \<and> map task_expected_output new = map (\<lambda>(n, t). get_or (expected_output t) []) tcs
   \<and> map (\<lambda>nt. Some (task_agent nt)) new =
       map (\<lambda>(n, t). case agent t of None \<Rightarrow> None | Some a \<Rightarrow> dict_get ags a) tcs"
proof (induction tcs arbitrary: new)
  case Nil
  then show ?case by simp
next
  case (Cons x tcs)
  obtain n t where x: "x = (n, t)" by (cases x)
  from Cons.prems obtain nt rest where new: "new = nt # rest"
    by (cases new) simp_all
  from Cons.prems have hd: "task_for ags t = Some nt"
    and tl: "map Some rest = map (\<lambda>(n, t). task_for ags t) tcs"
    by (simp_all add: new x)
  from hd obtain a ag where a: "agent t = Some a" and ag: "dict_get ags a = Some ag"
    and nt: "nt = task_object t ag"
    by (auto simp add: task_for_def split: option.splits)
  from Cons.IH [OF tl] show ?case
    by (simp add: new x a ag nt task_object_def)
qed

lemma build_crew_arguments_valid:
  assumes dist: "distinct (map fst (get_or (agents (config w)) []))"
      and valid: "list_all (\<lambda>(n, t). \<not> invalid_agent (get_or (agents (config w)) []) (agent t))
                    (get_or (tasks (config w)) [])"
      and reads: "list_all (quiet backend fs)
                    (scanned_files fs (get_or (knowledge_paths (config w)) []))"
  shows "\<exists>c w'. build_crew_arguments g backend fs w = (Inr c, w')
         \<and> crew_agents c = map (\<lambda>(n, cfg). agent_object g cfg None) (get_or (agents (config w)) [])
         \<and> map Some (crew_tasks c) =
             map (\<lambda>(n, t). task_for (map (\<lambda>(n, cfg). (n, agent_object g cfg None))
                                         (get_or (agents (config w)) [])) t)
               (get_or (tasks (config w)) [])"
proof -
  let ?acfg = "get_or (agents (config w)) []"
  let ?tcfg = "get_or (tasks (config w)) []"
  let ?ags = "map (\<lambda>(n, cfg). (n, agent_object g cfg None)) ?acfg"
  obtain ags w1 where loop: "build_agents_loop g ?acfg [] w = (ags, w1)"
    by (cases "build_agents_loop g ?acfg [] w")
  have cfg1: "config w1 = config w"
    using build_agents_loop_config [of g ?acfg "[]" w] by (simp add: loop)
  have ags: "ags = ?ags"
    using build_agents_loop_dict [of "[]" ?acfg g w] dist by (simp add: loop)
  have keys: "\<And>k. dict_contains ags k \<longleftrightarrow> dict_contains ?acfg k"
    using build_agents_loop_keys [of g ?acfg "[]" w] by (simp add: loop)
  have inv: "\<And>x. invalid_agent ags x = invalid_agent ?acfg x"
    by (rule invalid_agent_keys) (rule keys)
  from valid have valid': "list_all (\<lambda>(n, t). \<not> invalid_agent ags (agent t)) ?tcfg"
    by (simp add: inv)
  from build_tasks_loop_valid [OF valid', of "[]" w1] obtain new
    where run: "build_tasks_loop ?tcfg ags [] w1 =
                  (Inr new, w1\<lparr>constructed := constructed w1 @ map NTask new\<rparr>)"
      and new: "map Some new = map (\<lambda>(n, t). task_for ags t) ?tcfg"
    by auto
  let ?w2 = "w1\<lparr>constructed := constructed w1 @ map NTask new\<rparr>"
  have cfg2: "config ?w2 = config w" by (simp add: cfg1)
  obtain srcs w3 where know:
    "CrewAIRunner_load_knowledge backend fs (get_or (knowledge_paths (config w)) []) ?w2 = (Inr srcs, w3)"
    using load_knowledge_quiet [OF reads, of ?w2] by simp
  have new': "map Some new = map (\<lambda>(n, t). task_for ?ags t) ?tcfg"
    using new by (simp only: ags)
  have agents': "map snd ags = map (\<lambda>(n, cfg). agent_object g cfg None) ?acfg"
    by (simp add: ags case_prod_beta comp_def)
  have "build_crew_arguments g backend fs w =
          (Inr \<lparr>crew_agents = map snd ags,
                crew_tasks = new,
                crew_process = select_process (process (config w3)),
                crew_planning = get_or (planning (config w3)) True,
                crew_memory = get_or (memory (config w3)) True,
                crew_knowledge_sources = (if srcs \<noteq> [] then Some srcs else None),
                crew_verbose = get_or (verbose (config w3)) True\<rparr>, w3)"
    by (simp add: build_crew_arguments_def loop cfg1 run cfg2 know)
  with new' agents' show ?thesis by simp
qed

lemma construct_config_update:
  "construct obj (w\<lparr>config := c\<rparr>) = (construct obj w)\<lparr>config := c\<rparr>"
  by (simp add: construct_def)

lemma build_agents_loop_config_update:
  "build_agents_loop g cfgs ags (w\<lparr>config := c\<rparr>) =
     (case build_agents_loop g cfgs ags w of (r, w') \<Rightarrow> (r, w'\<lparr>config := c\<rparr>))"
proof (induction cfgs arbitrary: ags w)
  case Nil
  show ?case by simp
next
  case (Cons x cfgs)
  obtain n a where x: "x = (n, a)" by (cases x)
  show ?case
    by (simp add: x build_agent_eq construct_config_update Cons.IH)
qed

lemma build_tasks_loop_config_update:
  "build_tasks_loop tcs ags ts (w\<lparr>config := c\<rparr>) =
     (case build_tasks_loop tcs ags ts w of (r, w') \<Rightarrow> (r, w'\<lparr>config := c\<rparr>))"
proof (induction tcs arbitrary: ts w)
  case Nil
  show ?case by simp
next
  case (Cons x tcs)
  obtain n t where x: "x = (n, t)" by (cases x)
  show ?case
    by (simp add: x build_task_eq construct_config_update Cons.IH Let_def split: option.splits)
qed

lemma load_files_config_update:
  "load_files backend fs files sources (w\<lparr>config := c\<rparr>) =
     (case load_files backend fs files sources w of (r, w') \<Rightarrow> (r, w'\<lparr>config := c\<rparr>))"
proof (induction files arbitrary: sources w)
  case Nil
  show ?case by simp
next
  case (Cons f files)
  show ?case
    by (cases "read_text fs f")
       (simp_all add: knowledge_source_eq construct_config_update Cons.IH split: option.splits)
qed

lemma load_knowledge_config_update:
  "CrewAIRunner_load_knowledge backend fs paths (w\<lparr>config := c\<rparr>) =
     (case CrewAIRunner_load_knowledge backend fs paths w of (r, w') \<Rightarrow> (r, w'\<lparr>config := c\<rparr>))"
  by (simp add: CrewAIRunner_load_knowledge_def load_paths_files load_files_config_update)

lemma select_process_eq:
  "select_process q = (if q = Some ''hierarchical'' then hierarchical else sequential)"
  by (cases q) (simp_all add: select_process_def)

lemma build_crew_arguments_process:
  "fst (build_crew_arguments g backend fs (w\<lparr>config := (config w)\<lparr>process := p\<rparr>\<rparr>)) =
     map_sum (\<lambda>e. e)
       (\<lambda>c. c\<lparr>crew_process := (if p = Some ''hierarchical'' then hierarchical else sequential)\<rparr>)
       (fst (build_crew_arguments g backend fs w))"
proof -
  obtain ags w1 where l1: "build_agents_loop g (get_or (agents (config w)) []) [] w = (ags, w1)"
    by (cases "build_agents_loop g (get_or (agents (config w)) []) [] w")
  have c1: "config w1 = config w"
    using build_agents_loop_config [of g "get_or (agents (config w)) []" "[]" w] by (simp add: l1)
  obtain r2 w2 where l2: "build_tasks_loop (get_or (tasks (config w)) []) ags [] w1 = (r2, w2)"
    by (cases "build_tasks_loop (get_or (tasks (config w)) []) ags [] w1")
  have c2: "config w2 = config w"
    using build_tasks_loop_config [of "get_or (tasks (config w)) []" ags "[]" w1]
    by (simp add: l2 c1)
  obtain r3 w3 where
    l3: "CrewAIRunner_load_knowledge backend fs (get_or (knowledge_paths (config w)) []) w2 = (r3, w3)"
    by (cases "CrewAIRunner_load_knowledge backend fs (get_or (knowledge_paths (config w)) []) w2")
  have c3: "config w3 = config w"
    using load_knowledge_config [of backend fs "get_or (knowledge_paths (config w)) []" w2]
    by (simp add: l3 c2)
  show ?thesis
    by (cases r2; cases r3)
       (simp_all add: build_crew_arguments_def build_agents_loop_config_update
          build_tasks_loop_config_update load_knowledge_config_update
          l1 c1 l2 c2 l3 c3 select_process_eq)
qed

lemma build_crew_arguments_process_value:
  "build_crew_arguments g backend fs w = (Inr c, w') \<Longrightarrow>
   crew_process c = (if process (config w) = Some ''hierarchical'' then hierarchical else sequential)"
proof -
  assume run: "build_crew_arguments g backend fs w = (Inr c, w')"
  have same: "w\<lparr>config := (config w)\<lparr>process := process (config w)\<rparr>\<rparr> = w"
    by simp
  from build_crew_arguments_process [where g = g and backend = backend and fs = fs and w = w
      and p = "process (config w)"]
  have eq: "c = c\<lparr>crew_process :=
              (if process (config w) = Some ''hierarchical'' then hierarchical else sequential)\<rparr>"
    by (simp add: same run)
  have "crew_process c = crew_process (c\<lparr>crew_process :=
              (if process (config w) = Some ''hierarchical'' then hierarchical else sequential)\<rparr>)"
    by (rule arg_cong [OF eq])
  then show ?thesis by simp
qed

lemma join_cons: "join sep (p # ps) = p @ concat (map (\<lambda>y. sep @ y) ps)"
  by (induction ps arbitrary: p) simp_all

lemma join_append:
  "xs \<noteq> [] \<Longrightarrow> join sep (xs @ ys) = join sep xs @ concat (map (\<lambda>y. sep @ y) ys)"
  by (cases xs) (simp_all add: join_cons)

lemma tasks_loop_eq:
  "tasks_loop ts parts =
     parts @ map (\<lambda>(n, t). task_summary n (get_or (description t) []))
               (filter (\<lambda>(n, t). get_or (description t) [] \<noteq> []) ts)"
proof (induction ts arbitrary: parts)
  case Nil
  show ?case by simp
next
  case (Cons x ts)
  obtain n t where x: "x = (n, t)" by (cases x)
  show ?case by (simp add: x Cons.IH Let_def)
qed

section \<open>CrewAIRunner.build_crew and unresolved agent references\<close>

text \<open>
  Claim C1, as the code has it.  When some task of the configuration names an agent that is
  not a key of \<^verbatim>\<open>agents\<close> (or names none), \<^verbatim>\<open>build_crew\<close> raises the \<^verbatim>\<open>ValueError\<close> of the
  first task, in iteration order, that fails the check of the loop.  By then it has
  constructed one native agent for every entry of \<^verbatim>\<open>agents\<close> and one native task for
  every task before the failing one; it constructs no knowledge source and no crew, and
  leaves the configuration as it was.
\<close>

theorem build_crew_unresolved_agent:
  assumes "(n, t) \<in> set (get_or (tasks (config w)) [])"
      and "case agent t of None \<Rightarrow> True
           | Some a \<Rightarrow> \<not> dict_contains (get_or (agents (config w)) []) a"
  shows "\<exists>pre n' t' post new.
           get_or (tasks (config w)) [] = pre @ (n', t') # post
         \<and> list_all (\<lambda>(n, t). \<not> invalid_agent (get_or (agents (config w)) []) (agent t)) pre
         \<and> invalid_agent (get_or (agents (config w)) []) (agent t')
         \<and> CrewAIRunner_build_crew g backend fs w =
             (Inl (ValueError (invalid_agent_msg n' (agent t'))),
              w\<lparr>constructed := constructed w
                   @ map (\<lambda>(n, c). NAgent (agent_object g c None)) (get_or (agents (config w)) [])
                   @ map NTask new\<rparr>)
         \<and> length new = length pre"
proof -
  let ?acfg = "get_or (agents (config w)) []"
  let ?P = "\<lambda>x. invalid_agent ?acfg (agent (snd x))"
  from assms(2) have "invalid_agent ?acfg (agent t)"
    by (cases "agent t") (simp_all add: invalid_agent_def)
  with assms(1) have "\<exists>x\<in>set (get_or (tasks (config w)) []). ?P x"
    by force
  from split_list_first_prop [OF this] obtain pre x post
    where split: "get_or (tasks (config w)) [] = pre @ x # post"
      and bad: "?P x" and good: "\<forall>y\<in>set pre. \<not> ?P y"
    by blast
  obtain n' t' where x: "x = (n', t')" by (cases x)
  from good have pre: "list_all (\<lambda>(n, t). \<not> invalid_agent ?acfg (agent t)) pre"
    by (auto simp add: list_all_iff)
  from bad have bad': "invalid_agent ?acfg (agent t')" by (simp add: x)
  from build_crew_first_invalid [OF split [unfolded x] pre bad', of g backend fs]
  show ?thesis using split pre bad' unfolding x by blast
qed

theorem build_crew_unresolved_agent_witness:
  "(''writing_task'', empty_task_config\<lparr>agent := Some ''writer''\<rparr>)
      \<in> set (get_or (tasks (config partial_build_world)) [])
   \<and> \<not> dict_contains (get_or (agents (config partial_build_world)) []) ''writer''
   \<and> CrewAIRunner_build_crew (\<lambda>m. m) accepting_sdk empty_filesystem partial_build_world =
       (Inl (ValueError ''Task 'writing_task' has invalid agent: writer''),
        partial_build_world\<lparr>constructed :=
          [NAgent (agent_object (\<lambda>m. m) empty_agent_config None),
           NTask (task_object (empty_task_config\<lparr>agent := Some ''researcher''\<rparr>)
                    (agent_object (\<lambda>m. m) empty_agent_config None))]\<rparr>)"
proof -
  have h1: "(''writing_task'', empty_task_config\<lparr>agent := Some ''writer''\<rparr>)
              \<in> set (get_or (tasks (config partial_build_world)) [])"
    by (simp add: empty_task_config_def empty_crew_config_def partial_build_world_def)
  have h2: "case agent (empty_task_config\<lparr>agent := Some ''writer''\<rparr>) of None \<Rightarrow> True
            | Some a \<Rightarrow> \<not> dict_contains (get_or (agents (config partial_build_world)) []) a"
    by (simp add: empty_task_config_def empty_crew_config_def partial_build_world_def)
  from build_crew_unresolved_agent [OF h1 h2, of "\<lambda>m. m" accepting_sdk empty_filesystem]
  have "isl (fst (CrewAIRunner_build_crew (\<lambda>m. m) accepting_sdk empty_filesystem partial_build_world))"
    by auto
  moreover have "CrewAIRunner_build_crew (\<lambda>m. m) accepting_sdk empty_filesystem partial_build_world =
       (Inl (ValueError ''Task 'writing_task' has invalid agent: writer''),
        partial_build_world\<lparr>constructed :=
          [NAgent (agent_object (\<lambda>m. m) empty_agent_config None),
           NTask (task_object (empty_task_config\<lparr>agent := Some ''researcher''\<rparr>)
                    (agent_object (\<lambda>m. m) empty_agent_config None))]\<rparr>)"
    by (simp add: empty_agent_config_def empty_task_config_def empty_crew_config_def empty_filesystem_def partial_build_world_def
        CrewAIRunner_build_crew_def build_crew_arguments_def build_agent_eq build_task_eq construct_def invalid_agent_def invalid_agent_msg_def CrewAIRunner_load_knowledge_def Crew_def agent_object_def task_object_def)
  ultimately show ?thesis using h1 h2 by (simp add: empty_task_config_def empty_crew_config_def partial_build_world_def)
qed

text \<open>
  The claim as stated says that nothing is constructed before the error.  For an agent
  \<^verbatim>\<open>researcher\<close>, a task bound to it and a second task naming the undeclared \<^verbatim>\<open>writer\<close>, the
  error is raised after one agent and one task have been constructed.
\<close>

theorem build_crew_partial_build_counterexample:
  "\<not> dict_contains (get_or (agents (config partial_build_world)) []) ''writer''
   \<and> fst (CrewAIRunner_build_crew (\<lambda>m. m) accepting_sdk empty_filesystem partial_build_world) =
       Inl (ValueError ''Task 'writing_task' has invalid agent: writer'')
   \<and> constructed partial_build_world = []
   \<and> length (constructed (snd (CrewAIRunner_build_crew (\<lambda>m. m) accepting_sdk empty_filesystem
                                partial_build_world))) = 2"
  by (simp add: empty_agent_config_def empty_task_config_def empty_crew_config_def empty_filesystem_def partial_build_world_def
        CrewAIRunner_build_crew_def build_crew_arguments_def build_agent_eq build_task_eq construct_def invalid_agent_def invalid_agent_msg_def CrewAIRunner_load_knowledge_def Crew_def agent_object_def task_object_def)

section \<open>CrewAIRunner.build_crew on resolvable agent references\<close>

text \<open>
  Claim C2, as the code has it.  The keys of \<^verbatim>\<open>agents\<close> are distinct, as in every
  dictionary.  When every task names a non-empty agent name that is a key of \<^verbatim>\<open>agents\<close>, and
  scanning the knowledge files is quiet, \<^verbatim>\<open>build_crew\<close> raises no error of its own: it
  reaches the constructor call \<^verbatim>\<open>Crew(...)\<close> and its outcome is the outcome of that call,
  the crew when the SDK accepts the arguments and the SDK's error otherwise.  The crew
  handed to the constructor has one native agent per entry of \<^verbatim>\<open>agents\<close> and one native
  task per entry of \<^verbatim>\<open>tasks\<close>, in the iteration order of \<^verbatim>\<open>tasks\<close>; each task carries the
  description and expected output of its entry, and its agent is the native agent built
  from the configuration stored under the entry's agent name.
\<close>

theorem build_crew_resolved_agents:
  assumes "distinct (map fst (get_or (agents (config w)) []))"
      and "list_all (\<lambda>(n, t). case agent t of None \<Rightarrow> False
                              | Some a \<Rightarrow> a \<noteq> [] \<and> dict_contains (get_or (agents (config w)) []) a)
             (get_or (tasks (config w)) [])"
      and "list_all (quiet backend fs) (scanned_files fs (get_or (knowledge_paths (config w)) []))"
  shows "\<exists>c w'. build_crew_arguments g backend fs w = (Inr c, w')
         \<and> CrewAIRunner_build_crew g backend fs w = Crew backend c w'
         \<and> fst (CrewAIRunner_build_crew g backend fs w) =
             (case Crew_raises backend c of Some e \<Rightarrow> Inl e | None \<Rightarrow> Inr c)
         \<and> crew_agents c =
             map (\<lambda>(n, cfg). agent_object g cfg None) (get_or (agents (config w)) [])
         \<and> map task_description (crew_tasks c) =
             map (\<lambda>(n, t). get_or (description t) []) (get_or (tasks (config w)) [])
         \<and> map task_expected_output (crew_tasks c) =
             map (\<lambda>(n, t). get_or (expected_output t) []) (get_or (tasks (config w)) [])
         \<and> map (\<lambda>nt. Some (task_agent nt)) (crew_tasks c) =
             map (\<lambda>(n, t). case agent t of
                              None \<Rightarrow> None
                            | Some a \<Rightarrow> map_option (\<lambda>cfg. agent_object g cfg None)
                                          (dict_get (get_or (agents (config w)) []) a))
               (get_or (tasks (config w)) [])"
proof -
  let ?acfg = "get_or (agents (config w)) []"
  let ?tcfg = "get_or (tasks (config w)) []"
  let ?ags = "map (\<lambda>(n, cfg). (n, agent_object g cfg None)) ?acfg"
  have valid: "list_all (\<lambda>(n, t). \<not> invalid_agent ?acfg (agent t)) ?tcfg"
    using assms(2)
    by (auto simp add: list_all_iff invalid_agent_def split: option.splits)
  from build_crew_arguments_valid [OF assms(1) valid assms(3), of g] obtain c w'
    where args: "build_crew_arguments g backend fs w = (Inr c, w')"
      and ags: "crew_agents c = map (\<lambda>(n, cfg). agent_object g cfg None) ?acfg"
      and ts: "map Some (crew_tasks c) = map (\<lambda>(n, t). task_for ?ags t) ?tcfg"
    by blast
  have run: "CrewAIRunner_build_crew g backend fs w = Crew backend c w'"
    by (simp add: CrewAIRunner_build_crew_def args)
  have res: "fst (CrewAIRunner_build_crew g backend fs w) =
             (case Crew_raises backend c of Some e \<Rightarrow> Inl e | None \<Rightarrow> Inr c)"
    by (simp add: run Crew_fst)
  have look: "(\<lambda>(n, t). case agent t of None \<Rightarrow> None | Some a \<Rightarrow> dict_get ?ags a) =
      (\<lambda>(n, t). case agent t of None \<Rightarrow> None
                    | Some a \<Rightarrow> map_option (\<lambda>cfg. agent_object g cfg None) (dict_get ?acfg a))"
    by (simp add: fun_eq_iff dict_get_map split: option.splits)
  from task_for_fields [OF ts]
  have fields: "map task_description (crew_tasks c) = map (\<lambda>(n, t). get_or (description t) []) ?tcfg"
    "map task_expected_output (crew_tasks c) = map (\<lambda>(n, t). get_or (expected_output t) []) ?tcfg"
    "map (\<lambda>nt. Some (task_agent nt)) (crew_tasks c) =
       map (\<lambda>(n, t). case agent t of None \<Rightarrow> None
                      | Some a \<Rightarrow> map_option (\<lambda>cfg. agent_object g cfg None) (dict_get ?acfg a)) ?tcfg"
    by (simp_all only: look)
  from args run res ags fields show ?thesis by blast
qed

theorem build_crew_resolved_agents_witness:
  "distinct (map fst (get_or (agents (config research_crew_world)) []))
   \<and> list_all (quiet accepting_sdk notes_filesystem)
       (scanned_files notes_filesystem (get_or (knowledge_paths (config research_crew_world)) []))
   \<and> (\<exists>c. fst (CrewAIRunner_build_crew (\<lambda>m. m) accepting_sdk notes_filesystem research_crew_world)
            = Inr c
        \<and> map task_agent (crew_tasks c) =
            [agent_object (\<lambda>m. m) (empty_agent_config\<lparr>role := Some ''Researcher''\<rparr>) None,
             agent_object (\<lambda>m. m) (empty_agent_config\<lparr>role := Some ''Writer''\<rparr>) None]
        \<and> crew_agents c =
            [agent_object (\<lambda>m. m) (empty_agent_config\<lparr>role := Some ''Researcher''\<rparr>) None,
             agent_object (\<lambda>m. m) (empty_agent_config\<lparr>role := Some ''Writer''\<rparr>) None])"
proof -
  have h1: "distinct (map fst (get_or (agents (config research_crew_world)) []))"
    by (simp add: research_crew_world_def empty_crew_config_def)
  have h2: "list_all (\<lambda>(n, t). case agent t of None \<Rightarrow> False
                              | Some a \<Rightarrow> a \<noteq> [] \<and> dict_contains (get_or (agents (config research_crew_world)) []) a)
             (get_or (tasks (config research_crew_world)) [])"
    by (simp add: research_crew_world_def empty_crew_config_def empty_task_config_def)
  have h3: "list_all (quiet accepting_sdk notes_filesystem)
       (scanned_files notes_filesystem (get_or (knowledge_paths (config research_crew_world)) []))"
    by (simp add: research_crew_world_def empty_crew_config_def scanned_files_def
        notes_filesystem_def quiet_def accepting_sdk_def)
  from build_crew_resolved_agents [OF h1 h2 h3, of "\<lambda>m. m"] obtain c
    where res: "fst (CrewAIRunner_build_crew (\<lambda>m. m) accepting_sdk notes_filesystem
                       research_crew_world) =
                  (case Crew_raises accepting_sdk c of Some e \<Rightarrow> Inl e | None \<Rightarrow> Inr c)"
      and ags: "crew_agents c =
                  map (\<lambda>(n, cfg). agent_object (\<lambda>m. m) cfg None)
                    (get_or (agents (config research_crew_world)) [])"
      and ts: "map (\<lambda>nt. Some (task_agent nt)) (crew_tasks c) =
             map (\<lambda>(n, t). case agent t of
                              None \<Rightarrow> None
                            | Some a \<Rightarrow> map_option (\<lambda>cfg. agent_object (\<lambda>m. m) cfg None)
                                          (dict_get (get_or (agents (config research_crew_world)) []) a))
               (get_or (tasks (config research_crew_world)) [])"
    by blast
  from res have ok: "fst (CrewAIRunner_build_crew (\<lambda>m. m) accepting_sdk notes_filesystem
                            research_crew_world) = Inr c"
    by (simp add: accepting_sdk_def)
  from ts have "map Some (map task_agent (crew_tasks c)) =
            map Some [agent_object (\<lambda>m. m) (empty_agent_config\<lparr>role := Some ''Researcher''\<rparr>) None,
                      agent_object (\<lambda>m. m) (empty_agent_config\<lparr>role := Some ''Writer''\<rparr>) None]"
    by (simp add: research_crew_world_def empty_crew_config_def empty_task_config_def comp_def)
  then have bound: "map task_agent (crew_tasks c) =
            [agent_object (\<lambda>m. m) (empty_agent_config\<lparr>role := Some ''Researcher''\<rparr>) None,
             agent_object (\<lambda>m. m) (empty_agent_config\<lparr>role := Some ''Writer''\<rparr>) None]"
    by (simp only: inj_map_eq_map [OF inj_Some])
  from ags have ags': "crew_agents c =
            [agent_object (\<lambda>m. m) (empty_agent_config\<lparr>role := Some ''Researcher''\<rparr>) None,
             agent_object (\<lambda>m. m) (empty_agent_config\<lparr>role := Some ''Writer''\<rparr>) None]"
    by (simp add: research_crew_world_def empty_crew_config_def)
  show ?thesis
    apply (rule conjI)
     apply (rule h1)
    apply (rule conjI)
     apply (rule h3)
    apply (rule exI [of _ c])
    apply (rule conjI)
     apply (rule ok)
    apply (rule conjI)
     apply (rule bound)
    apply (rule ags')
    done
qed

text \<open>
  The claim as stated asks for the agent field to be a key of \<^verbatim>\<open>agents\<close> only.  The empty
  string can be such a key; a task naming it is rejected by \<^verbatim>\<open>not agent_name\<close>.
\<close>

theorem build_crew_empty_name_counterexample:
  "list_all (\<lambda>(n, t). case agent t of None \<Rightarrow> False
                        | Some a \<Rightarrow> dict_contains (get_or (agents (config empty_name_world)) []) a)
     (get_or (tasks (config empty_name_world)) [])
   \<and> fst (CrewAIRunner_build_crew (\<lambda>m. m) accepting_sdk empty_filesystem empty_name_world) =
       Inl (ValueError ''Task 'research_task' has invalid agent: '')"
  by (simp add: empty_agent_config_def empty_task_config_def empty_crew_config_def
        empty_filesystem_def empty_name_world_def
        CrewAIRunner_build_crew_def build_crew_arguments_def build_agent_eq build_task_eq
        construct_def invalid_agent_def invalid_agent_msg_def agent_object_def)

section \<open>StrandsRunner._build_system_prompt: task lines\<close>

text \<open>
  Claim C3.  The parts of the system prompt end with one summary line per task whose
  description is non-empty, in the iteration order of \<^verbatim>\<open>tasks\<close>, and the prompt itself
  ends with these lines, each after a newline.  A summary line is the task name, then
  the first 200 characters of the description and nothing more of it, then the marker
  \<^verbatim>\<open>...\<close>: its length is that of the name plus 8 plus the smaller of 200 and the length
  of the description, and for a description of 200 characters or fewer it holds the whole
  description followed by the marker.
\<close>

theorem task_summaries_truncated:
  "(\<exists>before. system_prompt_parts cfg =
       before @ map (\<lambda>(n, t). ''\<newline>- '' @ n @ '': '' @ take 200 (get_or (description t) []) @ ''...'')
                  (filter (\<lambda>(n, t). get_or (description t) [] \<noteq> []) (get_or (tasks cfg) [])))
   \<and> (\<exists>head. StrandsRunner_build_system_prompt cfg =
       head @ concat (map (\<lambda>(n, t). ''\<newline>'' @ ''\<newline>- '' @ n @ '': ''
                                       @ take 200 (get_or (description t) []) @ ''...'')
                        (filter (\<lambda>(n, t). get_or (description t) [] \<noteq> []) (get_or (tasks cfg) []))))
   \<and> task_summary name d = ''\<newline>- '' @ name @ '': '' @ take 200 d @ ''...''
   \<and> length (task_summary name d) = length name + 8 + min 200 (length d)
   \<and> (length d \<le> 200 \<longrightarrow> task_summary name d = ''\<newline>- '' @ name @ '': '' @ d @ ''...'')"
proof -
  let ?described = "filter (\<lambda>(n, t). get_or (description t) [] \<noteq> []) (get_or (tasks cfg) [])"
  let ?line = "\<lambda>(n, t). ''\<newline>- '' @ n @ '': '' @ take 200 (get_or (description t) []) @ ''...''"
  have line: "(\<lambda>(n, t). task_summary n (get_or (description t) [])) = ?line"
    by (simp add: task_summary_def fun_eq_iff)
  have parts: "\<exists>before. before \<noteq> [] \<and> system_prompt_parts cfg = before @ map ?line ?described"
    if "get_or (tasks cfg) [] \<noteq> []"
    using that by (simp add: system_prompt_parts_def tasks_loop_eq Let_def line)
  have c1: "\<exists>before. system_prompt_parts cfg = before @ map ?line ?described"
  proof (cases "get_or (tasks cfg) [] = []")
    case True
    then show ?thesis by simp
  next
    case False
    from parts [OF this] show ?thesis by blast
  qed
  have c2: "\<exists>head. StrandsRunner_build_system_prompt cfg =
       head @ concat (map (\<lambda>(n, t). ''\<newline>'' @ ''\<newline>- '' @ n @ '': ''
                                       @ take 200 (get_or (description t) []) @ ''...'') ?described)"
  proof (cases "get_or (tasks cfg) [] = []")
    case True
    then show ?thesis by simp
  next
    case False
    from parts [OF this] obtain before
      where ne: "before \<noteq> []" and eq: "system_prompt_parts cfg = before @ map ?line ?described"
      by blast
    have "StrandsRunner_build_system_prompt cfg =
            join ''\<newline>'' before @ concat (map (\<lambda>y. ''\<newline>'' @ y) (map ?line ?described))"
      by (simp only: StrandsRunner_build_system_prompt_def eq join_append [OF ne])
    also have "concat (map (\<lambda>y. ''\<newline>'' @ y) (map ?line ?described)) =
            concat (map (\<lambda>(n, t). ''\<newline>'' @ ''\<newline>- '' @ n @ '': ''
                                       @ take 200 (get_or (description t) []) @ ''...'') ?described)"
      by (simp add: comp_def split_def)
    finally show ?thesis by blast
  qed
  have c3: "task_summary name d = ''\<newline>- '' @ name @ '': '' @ take 200 d @ ''...''"
    by (simp add: task_summary_def)
  have c4: "length (task_summary name d) = length name + 8 + min 200 (length d)"
    by (simp add: task_summary_def)
  have c5: "length d \<le> 200 \<longrightarrow> task_summary name d = ''\<newline>- '' @ name @ '': '' @ d @ ''...''"
    by (simp add: task_summary_def)
  from c1 c2 c3 c4 c5 show ?thesis by blast
qed

theorem task_summaries_truncated_witness:
  "length (replicate 200 CHR ''x'') \<le> 200
   \<and> task_summary ''exact'' (replicate 200 CHR ''x'') =
       ''\<newline>- exact: '' @ replicate 200 CHR ''x'' @ ''...''
   \<and> length (task_summary ''exact'' (replicate 200 CHR ''x'')) = 213"
proof -
  have len: "length (replicate 200 CHR ''x'') \<le> 200"
    by simp
  note inst = task_summaries_truncated [of boundary_config "''exact''" "replicate 200 CHR ''x''"]
  from inst len have eq: "task_summary ''exact'' (replicate 200 CHR ''x'') =
       ''\<newline>- exact: '' @ replicate 200 CHR ''x'' @ ''...''"
    by simp
  from inst have "length (task_summary ''exact'' (replicate 200 CHR ''x'')) =
       length ''exact'' + 8 + min 200 (length (replicate 200 CHR ''x''))"
    by blast
  then have n: "length (task_summary ''exact'' (replicate 200 CHR ''x'')) = 213"
    by simp
  from len eq n show ?thesis by blast
qed

section \<open>StrandsRunner.run: the prompt\<close>

text \<open>
  Claim C4.  The prompt is the value stored under \<^verbatim>\<open>input\<close> when that key is present;
  otherwise the value stored under \<^verbatim>\<open>task\<close> when that key is present; otherwise the string
  form of the whole mapping.  The two examples of the specification evaluate as it says.
  Computing the prompt raises nothing: \<^verbatim>\<open>run\<close> raises exactly when the backend call on
  the prompt does.
\<close>

theorem run_prompt_fallback_chain:
  "(dict_contains inputs ''input'' \<longrightarrow>
      dict_get inputs ''input'' = Some (StrandsRunner_run_prompt inputs))
   \<and> (\<not> dict_contains inputs ''input'' \<and> dict_contains inputs ''task'' \<longrightarrow>
      dict_get inputs ''task'' = Some (StrandsRunner_run_prompt inputs))
   \<and> (\<not> dict_contains inputs ''input'' \<and> \<not> dict_contains inputs ''task'' \<longrightarrow>
      StrandsRunner_run_prompt inputs = py_str_dict inputs)
   \<and> StrandsRunner_run_prompt [(''task'', ''X'')] = ''X''
   \<and> StrandsRunner_run_prompt [(''other'', ''Y'')] = ''{'other': 'Y'}''
   \<and> StrandsRunner_run_prompt [(''other'', ''Y'')] \<noteq> ''Y''
   \<and> fst (StrandsRunner_run call to_str crew inputs w) =
       map_sum (\<lambda>e. e) to_str (call crew (StrandsRunner_run_prompt inputs))"
proof -
  have absent: "\<And>k. \<not> dict_contains inputs k \<Longrightarrow> dict_get inputs k = None"
    by (induction inputs) auto
  have c1: "dict_contains inputs ''input'' \<longrightarrow>
      dict_get inputs ''input'' = Some (StrandsRunner_run_prompt inputs)"
    by (auto simp add: StrandsRunner_run_prompt_def dict_get_or_def dest: dict_contains_get)
  have c2: "\<not> dict_contains inputs ''input'' \<and> dict_contains inputs ''task'' \<longrightarrow>
      dict_get inputs ''task'' = Some (StrandsRunner_run_prompt inputs)"
    by (auto simp add: StrandsRunner_run_prompt_def dict_get_or_def absent dest: dict_contains_get)
  have c3: "\<not> dict_contains inputs ''input'' \<and> \<not> dict_contains inputs ''task'' \<longrightarrow>
      StrandsRunner_run_prompt inputs = py_str_dict inputs"
    by (simp add: StrandsRunner_run_prompt_def dict_get_or_def absent)
  have e1: "StrandsRunner_run_prompt [(''task'', ''X'')] = ''X''"
    by (simp add: StrandsRunner_run_prompt_def dict_get_or_def)
  have e2: "StrandsRunner_run_prompt [(''other'', ''Y'')] = ''{'other': 'Y'}''"
    by (simp add: StrandsRunner_run_prompt_def dict_get_or_def py_str_dict_def py_repr_def
          repr_char_def py_isprintable_def Let_def)
  have e3: "StrandsRunner_run_prompt [(''other'', ''Y'')] \<noteq> ''Y''"
    by (simp add: e2)
  have r: "fst (StrandsRunner_run call to_str crew inputs w) =
       map_sum (\<lambda>e. e) to_str (call crew (StrandsRunner_run_prompt inputs))"
    by (cases "call crew (StrandsRunner_run_prompt inputs)")
       (simp_all add: StrandsRunner_run_def Let_def)
  from c1 c2 c3 e1 e2 e3 r show ?thesis by blast
qed

theorem run_prompt_fallback_chain_witness:
  "dict_contains [(''task'', ''B''), (''input'', ''A'')] ''input''
   \<and> StrandsRunner_run_prompt [(''task'', ''B''), (''input'', ''A'')] = ''A''
   \<and> \<not> dict_contains [(''topic'', ''C''), (''task'', ''B'')] ''input''
   \<and> dict_contains [(''topic'', ''C''), (''task'', ''B'')] ''task''
   \<and> StrandsRunner_run_prompt [(''topic'', ''C''), (''task'', ''B'')] = ''B''
   \<and> \<not> dict_contains [(''topic'', ''C'')] ''input''
   \<and> \<not> dict_contains [(''topic'', ''C'')] ''task''
   \<and> StrandsRunner_run_prompt [(''topic'', ''C'')] = py_str_dict [(''topic'', ''C'')]
   \<and> py_str_dict [(''topic'', ''C'')] = ''{'topic': 'C'}''"
proof -
  have a: "dict_contains [(''task'', ''B''), (''input'', ''A'')] ''input''"
    by simp
  have b: "\<not> dict_contains [(''topic'', ''C''), (''task'', ''B'')] ''input''
           \<and> dict_contains [(''topic'', ''C''), (''task'', ''B'')] ''task''"
    by simp
  have c: "\<not> dict_contains [(''topic'', ''C'')] ''input''
           \<and> \<not> dict_contains [(''topic'', ''C'')] ''task''"
    by simp
  from a run_prompt_fallback_chain [THEN conjunct1, of "[(''task'', ''B''), (''input'', ''A'')]"]
  have pa: "StrandsRunner_run_prompt [(''task'', ''B''), (''input'', ''A'')] = ''A''"
    by simp
  from b run_prompt_fallback_chain [THEN conjunct2, THEN conjunct1,
      of "[(''topic'', ''C''), (''task'', ''B'')]"]
  have pb: "StrandsRunner_run_prompt [(''topic'', ''C''), (''task'', ''B'')] = ''B''"
    by simp
  from c run_prompt_fallback_chain [THEN conjunct2, THEN conjunct2, THEN conjunct1,
      of "[(''topic'', ''C'')]"]
  have pc: "StrandsRunner_run_prompt [(''topic'', ''C'')] = py_str_dict [(''topic'', ''C'')]"
    by simp
  have s: "py_str_dict [(''topic'', ''C'')] = ''{'topic': 'C'}''"
    by (simp add: py_str_dict_def py_repr_def repr_char_def py_isprintable_def Let_def)
  from a b c pa pb pc s show ?thesis by blast
qed

section \<open>StrandsRunner._build_system_prompt: sections\<close>

text \<open>
  Claim C5 says that no heading stands in the prompt without content under it.  The
  tasks heading is guarded by \<^verbatim>\<open>if tasks:\<close>, which looks at the mapping, and each task
  line by \<^verbatim>\<open>if desc:\<close>.  For a configuration whose only task has no description the
  first guard passes and the second never does: the prompt is the tasks heading and
  nothing else.
\<close>

theorem build_system_prompt_bare_tasks_heading:
  "get_or (tasks undescribed_task_config) [] \<noteq> []
   \<and> system_prompt_parts undescribed_task_config = [''\<newline># Tasks You Can Perform'']
   \<and> StrandsRunner_build_system_prompt undescribed_task_config = ''\<newline># Tasks You Can Perform''"
  by (simp add: undescribed_task_config_def empty_crew_config_def empty_task_config_def
        StrandsRunner_build_system_prompt_def system_prompt_parts_def)

section \<open>Process selection\<close>

text \<open>
  Claim C6.  The steps of \<^verbatim>\<open>build_crew\<close> before the constructor call raise, or do not
  raise, whatever the \<^verbatim>\<open>process\<close> entry of the configuration is (\<open>None\<close> is the absent
  key): replacing the entry by any value \<open>p\<close> changes the crew handed to the constructor
  in the process field only, which is hierarchical when \<open>p\<close> is the string
  \<^verbatim>\<open>hierarchical\<close> and sequential for every other \<open>p\<close>.  Every value other than
  \<^verbatim>\<open>hierarchical\<close> gives \<^verbatim>\<open>build_crew\<close> the outcome it has for the absent key, so an
  unrecognized value raises nothing the default does not.  A crew that \<^verbatim>\<open>build_crew\<close>
  returns has the process selected from the configuration it was built from.
\<close>

theorem process_selection_total:
  "fst (build_crew_arguments g backend fs (w\<lparr>config := (config w)\<lparr>process := p\<rparr>\<rparr>)) =
     map_sum (\<lambda>e. e)
       (\<lambda>c. c\<lparr>crew_process := (if p = Some ''hierarchical'' then hierarchical else sequential)\<rparr>)
       (fst (build_crew_arguments g backend fs w))
   \<and> (p \<noteq> Some ''hierarchical'' \<longrightarrow>
        fst (CrewAIRunner_build_crew g backend fs (w\<lparr>config := (config w)\<lparr>process := p\<rparr>\<rparr>)) =
        fst (CrewAIRunner_build_crew g backend fs (w\<lparr>config := (config w)\<lparr>process := None\<rparr>\<rparr>)))
   \<and> (fst (CrewAIRunner_build_crew g backend fs w) = Inr crew \<longrightarrow>
        crew_process crew =
          (if process (config w) = Some ''hierarchical'' then hierarchical else sequential))"
proof -
  note args = build_crew_arguments_process [where g = g and backend = backend and fs = fs and w = w]
  have first: "fst (build_crew_arguments g backend fs (w\<lparr>config := (config w)\<lparr>process := p\<rparr>\<rparr>)) =
     map_sum (\<lambda>e. e)
       (\<lambda>c. c\<lparr>crew_process := (if p = Some ''hierarchical'' then hierarchical else sequential)\<rparr>)
       (fst (build_crew_arguments g backend fs w))"
    by (rule args)
  have second: "p \<noteq> Some ''hierarchical'' \<longrightarrow>
        fst (CrewAIRunner_build_crew g backend fs (w\<lparr>config := (config w)\<lparr>process := p\<rparr>\<rparr>)) =
        fst (CrewAIRunner_build_crew g backend fs (w\<lparr>config := (config w)\<lparr>process := None\<rparr>\<rparr>))"
    by (simp add: build_crew_fst args [of p] args [of None])
  have third: "fst (CrewAIRunner_build_crew g backend fs w) = Inr crew \<longrightarrow>
        crew_process crew =
          (if process (config w) = Some ''hierarchical'' then hierarchical else sequential)"
  proof
    assume ok: "fst (CrewAIRunner_build_crew g backend fs w) = Inr crew"
    obtain r w' where run: "build_crew_arguments g backend fs w = (r, w')"
      by (cases "build_crew_arguments g backend fs w")
    from ok have "r = Inr crew"
      by (cases r) (auto simp add: build_crew_fst run split: option.splits)
    with run have "build_crew_arguments g backend fs w = (Inr crew, w')"
      by simp
    from build_crew_arguments_process_value [OF this] show "crew_process crew =
          (if process (config w) = Some ''hierarchical'' then hierarchical else sequential)" .
  qed
  from first second third show ?thesis by blast
qed

theorem process_selection_total_witness:
  "Some ''parallel'' \<noteq> Some ''hierarchical''
   \<and> process (config unrecognized_process_world) = Some ''parallel''
   \<and> (\<exists>crew. fst (CrewAIRunner_build_crew (\<lambda>m. m) accepting_sdk empty_filesystem
                     unrecognized_process_world) = Inr crew
         \<and> crew_process crew = sequential)
   \<and> fst (CrewAIRunner_build_crew (\<lambda>m. m) accepting_sdk empty_filesystem
            unrecognized_process_world) =
     fst (CrewAIRunner_build_crew (\<lambda>m. m) accepting_sdk empty_filesystem
            (unrecognized_process_world
               \<lparr>config := (config unrecognized_process_world)\<lparr>process := None\<rparr>\<rparr>))"
proof -
  have ne: "Some ''parallel'' \<noteq> Some ''hierarchical''"
    by simp
  have p: "process (config unrecognized_process_world) = Some ''parallel''"
    by (simp add: unrecognized_process_world_def empty_crew_config_def)
  have same: "unrecognized_process_world
                \<lparr>config := (config unrecognized_process_world)\<lparr>process := Some ''parallel''\<rparr>\<rparr>
              = unrecognized_process_world"
    by (simp add: unrecognized_process_world_def empty_crew_config_def)
  have "\<exists>crew. fst (CrewAIRunner_build_crew (\<lambda>m. m) accepting_sdk empty_filesystem
                      unrecognized_process_world) = Inr crew"
    by (simp add: unrecognized_process_world_def empty_crew_config_def empty_task_config_def
          empty_filesystem_def accepting_sdk_def CrewAIRunner_build_crew_def
          build_crew_arguments_def build_agent_eq build_task_eq
          construct_def invalid_agent_def CrewAIRunner_load_knowledge_def Crew_def Let_def)
  then obtain crew
    where run: "fst (CrewAIRunner_build_crew (\<lambda>m. m) accepting_sdk empty_filesystem
                       unrecognized_process_world) = Inr crew"
    by blast
  note inst = process_selection_total [where g = "\<lambda>m. m" and backend = accepting_sdk
      and fs = empty_filesystem and w = unrecognized_process_world
      and p = "Some ''parallel''" and crew = crew]
  from inst run have "crew_process crew =
          (if process (config unrecognized_process_world) = Some ''hierarchical''
           then hierarchical else sequential)"
    by blast
  then have seq: "crew_process crew = sequential"
    by (simp add: p)
  from inst ne have "fst (CrewAIRunner_build_crew (\<lambda>m. m) accepting_sdk empty_filesystem
            (unrecognized_process_world
               \<lparr>config := (config unrecognized_process_world)\<lparr>process := Some ''parallel''\<rparr>\<rparr>)) =
     fst (CrewAIRunner_build_crew (\<lambda>m. m) accepting_sdk empty_filesystem
            (unrecognized_process_world
               \<lparr>config := (config unrecognized_process_world)\<lparr>process := None\<rparr>\<rparr>))"
    by blast
  then have eq: "fst (CrewAIRunner_build_crew (\<lambda>m. m) accepting_sdk empty_filesystem
            unrecognized_process_world) =
     fst (CrewAIRunner_build_crew (\<lambda>m. m) accepting_sdk empty_filesystem
            (unrecognized_process_world
               \<lparr>config := (config unrecognized_process_world)\<lparr>process := None\<rparr>\<rparr>))"
    by (simp only: same)
  from ne p run seq eq show ?thesis by blast
qed

section \<open>Construction of a runner\<close>

text \<open>
  Claim C7.  The constructor of each runner imports its SDK.  When the import raises
  \<^verbatim>\<open>ImportError\<close> the constructor raises a \<^verbatim>\<open>RuntimeError\<close> that names the package to
  install, so no runner exists on which \<^verbatim>\<open>build_crew\<close> or \<^verbatim>\<open>run\<close> could be called; when
  the import succeeds the constructor returns the runner.
\<close>

theorem runner_init_dependency:
  "CrewAIRunner_init (Inl ImportError) =
     Inl (RuntimeError ''CrewAI not installed. Install with: pip install crewai[tools]'')
   \<and> CrewAIRunner_init (Inr ()) = Inr CrewAIRunner
   \<and> StrandsRunner_init (Inl ImportError) =
     Inl (RuntimeError ''Strands not installed. Install with: pip install strands-agents'')
   \<and> StrandsRunner_init (Inr ()) = Inr StrandsRunner"
  by simp

section \<open>CrewAIRunner._load_knowledge\<close>

text \<open>
  Claim C8 says that \<^verbatim>\<open>_load_knowledge\<close> never raises.  The \<^verbatim>\<open>except\<close> clause around
  \<^verbatim>\<open>read_text\<close> catches \<^verbatim>\<open>OSError\<close> only.  On a directory \<^verbatim>\<open>kb\<close> holding \<^verbatim>\<open>notes.md\<close>,
  \<^verbatim>\<open>binary.txt\<close> (whose bytes are not text in the default encoding) and \<^verbatim>\<open>after.txt\<close>,
  the \<^verbatim>\<open>UnicodeDecodeError\<close> of \<^verbatim>\<open>binary.txt\<close> leaves the function: the call raises, after
  the source for \<^verbatim>\<open>notes.md\<close> was constructed, and \<^verbatim>\<open>after.txt\<close> is never scanned.
\<close>

theorem load_knowledge_undecodable_file:
  "CrewAIRunner_load_knowledge accepting_sdk binary_filesystem [''kb''] empty_world =
     (Inl UnicodeDecodeError,
      empty_world\<lparr>constructed := [NKnowledge \<lparr>file_paths = [''kb/notes.md'']\<rparr>]\<rparr>)"
  by (simp add: CrewAIRunner_load_knowledge_def binary_filesystem_def empty_world_def
        accepting_sdk_def knowledge_source_eq construct_def py_strip_def py_isspace_def)

section \<open>The configuration is never written\<close>

text \<open>
  Claim C9.  The caller's configuration is part of the state every operation receives and
  returns.  \<^verbatim>\<open>build_crew\<close> and \<^verbatim>\<open>run\<close> of both runners return it as they found it, nested
  \<^verbatim>\<open>agents\<close>, \<^verbatim>\<open>tasks\<close> and \<^verbatim>\<open>knowledge_paths\<close> included, whether they return or raise.
\<close>

theorem config_unchanged:
  "config (snd (CrewAIRunner_build_crew g backend fs w)) = config w
   \<and> config (snd (CrewAIRunner_run kickoff crew inputs w)) = config w
   \<and> config (snd (StrandsRunner_build_crew w)) = config w
   \<and> config (snd (StrandsRunner_run call to_str agent_handle inputs w)) = config w"
  by (simp add: build_crew_config CrewAIRunner_run_def StrandsRunner_build_crew_def
        StrandsRunner_run_def config_construct Let_def split: sum.splits)

section \<open>CrewAIRunner.build_crew and missing or empty agent fields\<close>

text \<open>
  Claim C10.  A task whose \<^verbatim>\<open>agent\<close> key is absent, or holds the empty string, fails the
  check of the task loop whatever the keys of \<^verbatim>\<open>agents\<close> are.  When every earlier task
  passes the check, \<^verbatim>\<open>build_crew\<close> raises for this task the \<^verbatim>\<open>ValueError\<close> with the message
  of \<open>invalid_agent_msg\<close>, the one raised for an unknown agent name, and no native task is
  constructed for it or for any later task.
\<close>

theorem build_crew_missing_agent_field:
  assumes "get_or (tasks (config w)) [] = pre @ (n, t) # post"
      and "list_all (\<lambda>(n, t). \<not> invalid_agent (get_or (agents (config w)) []) (agent t)) pre"
      and "agent t = None \<or> agent t = Some []"
  shows "fst (CrewAIRunner_build_crew g backend fs w) = Inl (ValueError (invalid_agent_msg n (agent t)))
       \<and> (\<exists>new. constructed (snd (CrewAIRunner_build_crew g backend fs w)) =
                   constructed w
                   @ map (\<lambda>(n, c). NAgent (agent_object g c None)) (get_or (agents (config w)) [])
                   @ map NTask new
                 \<and> length new = length pre)"
proof -
  from assms(3) have bad: "invalid_agent (get_or (agents (config w)) []) (agent t)"
    by (auto simp add: invalid_agent_def)
  from build_crew_first_invalid [OF assms(1) assms(2) bad, of g backend fs] obtain new
    where run: "CrewAIRunner_build_crew g backend fs w =
           (Inl (ValueError (invalid_agent_msg n (agent t))),
            w\<lparr>constructed := constructed w
                 @ map (\<lambda>(n, c). NAgent (agent_object g c None)) (get_or (agents (config w)) [])
                 @ map NTask new\<rparr>)"
      and len: "length new = length pre"
    by blast
  from len show ?thesis by (auto simp add: run)
qed

theorem build_crew_missing_agent_field_witness:
  "get_or (tasks (config missing_agent_world)) [] =
      [] @ (''first'', empty_task_config\<lparr>agent := Some []\<rparr>) # [(''second'', empty_task_config)]
   \<and> dict_contains (get_or (agents (config missing_agent_world)) []) []
   \<and> fst (CrewAIRunner_build_crew (\<lambda>m. m) accepting_sdk empty_filesystem missing_agent_world) =
       Inl (ValueError ''Task 'first' has invalid agent: '')
   \<and> constructed (snd (CrewAIRunner_build_crew (\<lambda>m. m) accepting_sdk empty_filesystem missing_agent_world)) =
       [NAgent (agent_object (\<lambda>m. m) empty_agent_config None)]"
proof -
  have h1: "get_or (tasks (config missing_agent_world)) [] =
      [] @ (''first'', empty_task_config\<lparr>agent := Some []\<rparr>) # [(''second'', empty_task_config)]"
    by (simp add: missing_agent_world_def empty_crew_config_def)
  have h2: "list_all (\<lambda>(n, t). \<not> invalid_agent (get_or (agents (config missing_agent_world)) [])
                                   (agent t)) []"
    by simp
  have h3: "agent (empty_task_config\<lparr>agent := Some []\<rparr>) = None
            \<or> agent (empty_task_config\<lparr>agent := Some []\<rparr>) = Some []"
    by simp
  from build_crew_missing_agent_field [OF h1 h2 h3, of "\<lambda>m. m" accepting_sdk empty_filesystem]
  show ?thesis
    using h1 by (simp add: invalid_agent_msg_def missing_agent_world_def empty_crew_config_def)
qed

end
